theory Spec2Isabelle
  imports Main
begin

section \<open>The FHIR package loader: cache, resolution and definition store\<close>

text \<open>
  A shallow embedding of \<^verbatim>\<open>load.ts\<close> (the second document of \<^verbatim>\<open>src/src/app.ts\<close>):
  the process-wide \<^verbatim>\<open>PackageCache\<close>, \<^verbatim>\<open>loadFromPath\<close>, \<^verbatim>\<open>cleanCachedPackage\<close>,
  \<^verbatim>\<open>mergeDependency\<close>, \<^verbatim>\<open>loadDependencies\<close> and the two version look-ups. The file system,
  the network, the clock and the log are explicit: the functions take a world and return
  the new one. Every \<^verbatim>\<open>throw\<close> and every rejected promise is an \<open>Inl\<close>.
\<close>

subsection \<open>Strings\<close>

text \<open>\<^verbatim>\<open>s.startsWith(p)\<close>, \<^verbatim>\<open>s.endsWith(p)\<close> and the test of a regular expression that is a
  plain word (\<^verbatim>\<open>/certificate/.test(s)\<close>).\<close>

definition startsWith :: "string \<Rightarrow> string \<Rightarrow> bool" where
  "startsWith p s = (take (length p) s = p)"

definition endsWith :: "string \<Rightarrow> string \<Rightarrow> bool" where
  "endsWith p s = (length p \<le> length s \<and> drop (length s - length p) s = p)"

fun includesStr :: "string \<Rightarrow> string \<Rightarrow> bool" where
  "includesStr p [] = (p = [])"
| "includesStr p (c # cs) = (startsWith p (c # cs) \<or> includesStr p cs)"

text \<open>\<^verbatim>\<open>s.split(c)\<close> for a separator of one character: never the empty array.\<close>

fun split_on :: "char \<Rightarrow> string \<Rightarrow> string list" where
  "split_on c [] = [[]]"
| "split_on c (x # xs) =
     (if x = c then [] # split_on c xs
      else (case split_on c xs of [] \<Rightarrow> [[x]] | y # ys \<Rightarrow> (x # y) # ys))"

text \<open>Reading an array out of range gives \<^verbatim>\<open>undefined\<close>, here \<open>None\<close>; a template literal
  prints \<^verbatim>\<open>undefined\<close> as the word.\<close>

definition nth_opt :: "'a list \<Rightarrow> nat \<Rightarrow> 'a option" where
  "nth_opt xs i = (if i < length xs then Some (xs ! i) else None)"

definition tmpl :: "string option \<Rightarrow> string" where
  "tmpl v = (case v of None \<Rightarrow> ''undefined'' | Some s \<Rightarrow> s)"

definition isDigit :: "char \<Rightarrow> bool" where
  "isDigit c = (c \<in> set ''0123456789'')"

text \<open>\<^verbatim>\<open>/^\d+$/\<close> on one dot-separated part.\<close>

definition digits1 :: "string \<Rightarrow> bool" where
  "digits1 s = (s \<noteq> [] \<and> list_all isDigit s)"

text \<open>\<^verbatim>\<open>/^\d+\.\d+\.x$/\<close> and \<^verbatim>\<open>/^\d+\.x$/\<close>.\<close>

definition isPatchWildcard :: "string \<Rightarrow> bool" where
  "isPatchWildcard v =
     (case split_on CHR ''.'' v of
        [a, b, c] \<Rightarrow> digits1 a \<and> digits1 b \<and> c = ''x''
      | _ \<Rightarrow> False)"

definition isMinorWildcard :: "string \<Rightarrow> bool" where
  "isMinorWildcard v =
     (case split_on CHR ''.'' v of
        [a, c] \<Rightarrow> digits1 a \<and> c = ''x''
      | _ \<Rightarrow> False)"

text \<open>\<^verbatim>\<open>/^current(\$.+)?$/\<close>: the word itself, or the word, a dollar and at least one more
  character, none of them a line terminator (which \<^verbatim>\<open>.\<close> does not match).\<close>

definition isCurrentVersion :: "string \<Rightarrow> bool" where
  "isCurrentVersion v =
     (v = ''current'' \<or>
      (startsWith ''current$'' v \<and> drop 8 v \<noteq> [] \<and>
       list_all (\<lambda>c. c \<noteq> CHR 0x0A \<and> c \<noteq> CHR 0x0D) (drop 8 v)))"

subsection \<open>JSON values and the file system\<close>

text \<open>A parsed JSON value. Numbers stand for themselves only as far as equality goes.\<close>

datatype json =
    JNull | JBool bool | JNum int | JStr string
  | JArr "json list" | JObj "(string \<times> json) list"

text \<open>\<^verbatim>\<open>j?.[k]\<close>: a property of a parsed object; \<^verbatim>\<open>undefined\<close> on anything else.\<close>

definition field :: "string \<Rightarrow> json \<Rightarrow> json option" where
  "field k j = (case j of JObj fs \<Rightarrow> map_of fs k | _ \<Rightarrow> None)"

definition strField :: "string \<Rightarrow> json \<Rightarrow> string option" where
  "strField k j = (case field k j of Some (JStr s) \<Rightarrow> Some s | _ \<Rightarrow> None)"

text \<open>A file holds text; a directory lists its entries in the order \<^verbatim>\<open>readdirSync\<close>
  returns them.\<close>

datatype node = File string | Dir "(string \<times> node) list"

subsection \<open>The process cache\<close>

text \<open>The class \<^verbatim>\<open>LoadedPackage\<close>: the cache key, the parsed definitions in the order they
  were read, and the parsed \<^verbatim>\<open>package.json\<close> when there is one.\<close>

record LoadedPackage =
  package :: string
  defs :: "json list"
  packageJson :: "json option"

subsection \<open>The definition store\<close>

text \<open>
  The class \<^verbatim>\<open>FHIRDefinitions\<close> (\<^verbatim>\<open>./FHIRDefinitions\<close>) is not among the sources; only its
  callers (\<^verbatim>\<open>merge\<close>, \<^verbatim>\<open>loadDependencies\<close>) and its tests (\<^verbatim>\<open>src/unnamed/part_000\<close>) are.
  What follows of it is modelled from the spec, each definition saying so.
\<close>

text \<open>Modelled from the spec: the closed set \<^verbatim>\<open>TypeCategory\<close> (\<^verbatim>\<open>Type\<close> in the tests), which
  lives in \<^verbatim>\<open>./FHIRDefinitions\<close>.\<close>

datatype Type =
    Resource | Logical | Type | Profile | Extension | ValueSet | CodeSystem
  | ImplementationGuide | Instance

text \<open>Modelled from the spec: an entry of \<^verbatim>\<open>ownDefinitions\<close>, which is missing with the
  class: a definition with the category given at add-time. The version an entry resolves to
  is the definition's own version attribute, read where it is needed.\<close>

datatype entry = Entry (defn: json) (typeCategory: Type)

text \<open>Modelled from the spec: the store of the data model, a node of a strict tree, the class
  being missing: the label (\<^verbatim>\<open>package\<close> in the callers), the node's own definitions, the
  children in insertion order, the failure flag and the package metadata by label. The
  three key spaces \<open>byId\<close>, \<open>byName\<close>, \<open>byUrl\<close> are read off the list of own definitions:
  the entries under a key, in insertion order, are the entries whose attribute is that
  key.\<close>

datatype FHIRDefinitions = FHIRDefinitions
  (fd_package: string)
  (ownDefinitions: "entry list")
  (childFHIRDefs: "FHIRDefinitions list")
  (unsuccessfulPackageLoad: bool)
  (packageMetadataByLabel: "(string \<times> json option) list")

text \<open>Modelled from the spec: \<^verbatim>\<open>new FHIRDefinitions()\<close>, the constructor being missing: a
  node created empty, with the empty label of a pure aggregator (the test of
  \<^verbatim>\<open>loadDependencies\<close> reads \<^verbatim>\<open>''\<close> there).\<close>

definition new_FHIRDefinitions :: FHIRDefinitions where
  "new_FHIRDefinitions = FHIRDefinitions [] [] [] False []"

text \<open>The assignments \<^verbatim>\<open>d.package = p\<close>, \<^verbatim>\<open>d.unsuccessfulPackageLoad = b\<close> and
  \<^verbatim>\<open>d.childFHIRDefs.push(c)\<close> of \<^verbatim>\<open>load.ts\<close>.\<close>

fun set_package :: "string \<Rightarrow> FHIRDefinitions \<Rightarrow> FHIRDefinitions" where
  "set_package p (FHIRDefinitions _ ds cs u m) = FHIRDefinitions p ds cs u m"

fun set_unsuccessfulPackageLoad :: "bool \<Rightarrow> FHIRDefinitions \<Rightarrow> FHIRDefinitions" where
  "set_unsuccessfulPackageLoad b (FHIRDefinitions p ds cs _ m) = FHIRDefinitions p ds cs b m"

fun push_child :: "FHIRDefinitions \<Rightarrow> FHIRDefinitions \<Rightarrow> FHIRDefinitions" where
  "push_child c (FHIRDefinitions p ds cs u m) = FHIRDefinitions p ds (cs @ [c]) u m"

text \<open>Modelled from the spec: the classification of a raw record, which the missing method
  \<^verbatim>\<open>add\<close> applies: the table of the data model; a constraint on a logical model counts as a
  profile, anything unclassified is an instance.\<close>

definition classify :: "json \<Rightarrow> Type" where
  "classify d =
     (let resourceType = strField ''resourceType'' d; kind = strField ''kind'' d;
          derivation = strField ''derivation'' d
      in if resourceType = Some ''StructureDefinition'' then
           (if kind = Some ''primitive-type'' \<or> kind = Some ''complex-type'' then Type
            else if kind = Some ''logical'' then
              (if derivation = Some ''constraint'' then Profile else Logical)
            else if kind = Some ''resource'' then
              (if derivation = Some ''specialization'' then Resource
               else if derivation = Some ''constraint'' then
                 (if strField ''type'' d = Some ''Extension'' then Extension else Profile)
               else Instance)
            else Instance)
         else if resourceType = Some ''ValueSet'' then ValueSet
         else if resourceType = Some ''CodeSystem'' then CodeSystem
         else if resourceType = Some ''ImplementationGuide'' then ImplementationGuide
         else Instance)"

text \<open>Modelled from the spec: the missing method \<^verbatim>\<open>defs.add(d)\<close>: the record joins the
  node's own definitions, classified.\<close>

fun add :: "json \<Rightarrow> FHIRDefinitions \<Rightarrow> FHIRDefinitions" where
  "add d (FHIRDefinitions p ds cs u m) =
     FHIRDefinitions p (ds @ [Entry d (classify d)]) cs u m"

text \<open>An assignment \<^verbatim>\<open>m[k] = v\<close> on a mapping kept as a list: the binding of the key is
  replaced where it stands, a new key is listed last.\<close>

fun put_entry :: "string \<Rightarrow> 'a \<Rightarrow> (string \<times> 'a) list \<Rightarrow> (string \<times> 'a) list" where
  "put_entry k v [] = [(k, v)]"
| "put_entry k v ((k', v') # es) =
     (if k' = k then (k, v) # es else (k', v') # put_entry k v es)"

text \<open>Modelled from the spec: the missing method \<^verbatim>\<open>defs.addPackageJson(label, json)\<close>: the
  metadata is filed under the label.\<close>

fun addPackageJson :: "string \<Rightarrow> json option \<Rightarrow> FHIRDefinitions \<Rightarrow> FHIRDefinitions" where
  "addPackageJson l j (FHIRDefinitions p ds cs u m) =
     FHIRDefinitions p ds cs u (put_entry l j m)"

text \<open>\<^verbatim>\<open>merge(pkg, defs)\<close> of \<^verbatim>\<open>load.ts\<close>.\<close>

definition merge :: "LoadedPackage \<Rightarrow> FHIRDefinitions \<Rightarrow> FHIRDefinitions" where
  "merge pkg fhirDefs =
     set_package (package pkg)
       (addPackageJson (package pkg) (packageJson pkg)
          (fold add (defs pkg) fhirDefs))"

text \<open>Modelled from the spec: the fixed default priority order of the missing
  \<^verbatim>\<open>fishForFHIR\<close>, section 4.7.\<close>

definition FISHING_ORDER :: "Type list" where
  "FISHING_ORDER =
     [Resource, Logical, Type, Profile, Extension, ValueSet, CodeSystem, Instance]"

text \<open>Modelled from the spec: the split of the lookup string of the missing \<^verbatim>\<open>fishForFHIR\<close>
  at the reserved separator into a base and a version. The occurrence is the one the
  repository's test \<^verbatim>\<open>should find definitions with a version with | in the version\<close> fixes
  (part_000, lines 386 to 392): \<^verbatim>\<open>'SimpleProfile|1.0.0|a'\<close> finds the definition whose id is
  \<^verbatim>\<open>SimpleProfile\<close> and whose version is \<^verbatim>\<open>1.0.0|a\<close>, so the base ends at the first
  separator.\<close>

definition splitVersion :: "string \<Rightarrow> string \<times> string option" where
  "splitVersion item =
     (case dropWhile (\<lambda>c. c \<noteq> CHR ''|'') item of
        [] \<Rightarrow> (item, None)
      | _ # v \<Rightarrow> (takeWhile (\<lambda>c. c \<noteq> CHR ''|'') item, Some v))"

text \<open>Modelled from the spec: step 2 of the missing \<^verbatim>\<open>fishForFHIR\<close>: with a version suffix
  only a candidate whose own version attribute equals it exactly is accepted.\<close>

definition versionOk :: "string option \<Rightarrow> entry \<Rightarrow> bool" where
  "versionOk version e =
     (case version of None \<Rightarrow> True | Some v \<Rightarrow> strField ''version'' (defn e) = Some v)"

text \<open>Modelled from the spec: a hit of the missing \<^verbatim>\<open>fishForFHIR\<close> in one key space for one
  category: the first entry under the key that has the category and an acceptable
  version.\<close>

definition hit ::
  "entry list \<Rightarrow> string \<Rightarrow> string option \<Rightarrow> Type \<Rightarrow> string \<Rightarrow> entry option" where
  "hit es base version t key =
     find (\<lambda>e. strField key (defn e) = Some base \<and> typeCategory e = t \<and> versionOk version e) es"

text \<open>The first result that is not \<^verbatim>\<open>undefined\<close>, over a list tried in order.\<close>

fun firstSome :: "('a \<Rightarrow> 'b option) \<Rightarrow> 'a list \<Rightarrow> 'b option" where
  "firstSome f [] = None"
| "firstSome f (x # xs) = (case f x of Some y \<Rightarrow> Some y | None \<Rightarrow> firstSome f xs)"

text \<open>Modelled from the spec: step 1 of the missing \<^verbatim>\<open>fishForFHIR\<close>: at a node, for each
  requested category in order, the key spaces are tried in the order id, name, url, and the
  first that yields a hit wins.\<close>

definition fishLocal ::
  "FHIRDefinitions \<Rightarrow> string \<Rightarrow> string option \<Rightarrow> Type list \<Rightarrow> json option" where
  "fishLocal d base version types =
     map_option defn
       (firstSome (\<lambda>t. firstSome (hit (ownDefinitions d) base version t)
                          [''id'', ''name'', ''url'']) types)"

text \<open>The number of nodes of a tree: what a breadth-first queue loses and gains is counted
  in it.\<close>

fun nodes :: "FHIRDefinitions \<Rightarrow> nat" where
  "nodes (FHIRDefinitions p ds cs u m) = Suc (sum_list (map nodes cs))"

text \<open>Modelled from the spec: steps 3 and 4 of the missing \<^verbatim>\<open>fishForFHIR\<close>, breadth first:
  the queue holds the nodes still to visit; a node without a match leaves the queue and its
  children join at the end, after every sibling.\<close>

function fishQueue ::
  "FHIRDefinitions list \<Rightarrow> string \<Rightarrow> string option \<Rightarrow> Type list \<Rightarrow> json option" where
  "fishQueue [] base version types = None"
| "fishQueue (d # queue) base version types =
     (case fishLocal d base version types of
        Some x \<Rightarrow> Some x
      | None \<Rightarrow> fishQueue (queue @ childFHIRDefs d) base version types)"
  by pat_completeness auto
termination
proof (relation "measure (\<lambda>(q, b, v, t). sum_list (map nodes q))")
  show "wf (measure (\<lambda>(q, b, v, t). sum_list (map nodes q)))"
    by simp
next
  fix d :: FHIRDefinitions and queue base version types
  show "((queue @ childFHIRDefs d, base, version, types), (d # queue, base, version, types))
          \<in> measure (\<lambda>(q, b, v, t). sum_list (map nodes q))"
    by (cases d) simp
qed

text \<open>Modelled from the spec: \<^verbatim>\<open>fishForFHIR(item, ...types)\<close>, section 4.7, the method being
  missing with its class: no requested category means the fixed default order; the search
  starts at the node itself.\<close>

definition fishForFHIR :: "FHIRDefinitions \<Rightarrow> string \<Rightarrow> Type list \<Rightarrow> json option" where
  "fishForFHIR d item types =
     (case splitVersion item of
        (base, version) \<Rightarrow>
          fishQueue [d] base version (if types = [] then FISHING_ORDER else types))"

subsection \<open>Errors, the environment and the world\<close>

text \<open>The errors of \<^verbatim>\<open>./errors\<close> with the arguments of their constructors, and the errors
  thrown by the platform: a \<^verbatim>\<open>TypeError\<close> on a property of \<^verbatim>\<open>undefined\<close>, the
  \<^verbatim>\<open>SyntaxError\<close> of \<^verbatim>\<open>JSON.parse\<close>, a file-system error by its code, a failed request with
  its message, and an archive that does not extract.\<close>

datatype error =
    PackageLoadError string "string option"
  | CurrentPackageLoadError string
  | IncorrectWildcardVersionFormatError string string
  | LatestVersionUnavailableError string "string option" bool
  | TypeError
  | SyntaxError
  | SystemError string
  | RequestError string
  | TarError

text \<open>What \<^verbatim>\<open>axiosGet(url)\<close> yields: it throws, or it returns a response whose \<^verbatim>\<open>data\<close> may
  be missing. Responses are modelled at the types the code reads them at: the registry's
  package document (\<^verbatim>\<open>dist-tags.latest\<close>, and \<^verbatim>\<open>versions\<close> with each version's
  \<^verbatim>\<open>dist.tarball\<close>), the build server's listing of \<^verbatim>\<open>QAEntry\<close> records, a manifest as
  JSON, and an archive by what \<^verbatim>\<open>tar.x\<close> extracts from it.\<close>

datatype 'a response = Throws string | Response "'a option"

record QAEntry =
  package_id :: string
  date :: "string option"
  repo :: string

record registryInfo =
  latestTag :: "string option"
  versions :: "(string \<times> string option) list option"

datatype archive = Extracts "(string \<times> node) list" | Corrupt

record env =
  JSON_parse :: "string \<Rightarrow> json option"
  Date_parse :: "string \<Rightarrow> int option"
  clock :: "nat \<Rightarrow> int"
  customRegistry :: "string option"
  registryAt :: "string \<Rightarrow> registryInfo response"
  qasAt :: "string \<Rightarrow> QAEntry list response"
  manifestAt :: "string \<Rightarrow> json response"
  tarballAt :: "string \<Rightarrow> archive response"

text \<open>The mutable state: what is at each cache path (distinct cache paths are taken as
  disjoint directories), the two statics of \<^verbatim>\<open>PackageCache\<close>, the number of clock
  readings so far, the URLs requested so far and the messages logged so far.
  The field \<open>cache\<close> holds the own properties of the static \<^verbatim>\<open>cache\<close>, the packages stored
  so far.\<close>

record world =
  fsAt :: "string \<Rightarrow> node option"
  cache :: "string \<Rightarrow> LoadedPackage option"
  lastCurrentUpdate :: "int option"
  ticks :: nat
  calls :: "string list"
  logs :: "(string \<times> string) list"

definition logMsg :: "string \<Rightarrow> string \<Rightarrow> world \<Rightarrow> world" where
  "logMsg level message w = w\<lparr>logs := logs w @ [(level, message)]\<rparr>"

definition axiosGet :: "string \<Rightarrow> world \<Rightarrow> world" where
  "axiosGet url w = w\<lparr>calls := calls w @ [url]\<rparr>"

text \<open>\<^verbatim>\<open>new Date().getTime()\<close>.\<close>

definition newDate :: "env \<Rightarrow> world \<Rightarrow> int \<times> world" where
  "newDate env w = (clock env (ticks w), w\<lparr>ticks := Suc (ticks w)\<rparr>)"

text \<open>The statics of \<^verbatim>\<open>PackageCache\<close>. \<^verbatim>\<open>isCurrentPackageRefreshNeeded\<close> is
  \<^verbatim>\<open>!lastCurrentUpdate || lastCurrentUpdate.getTime() - new Date().getTime() > 86400000\<close>,
  times in milliseconds; a \<^verbatim>\<open>lastCurrentUpdate\<close> never assigned is \<open>None\<close>, and the clock is
  read only when the first disjunct is false.\<close>

definition isCurrentPackageRefreshNeeded :: "env \<Rightarrow> world \<Rightarrow> bool \<times> world" where
  "isCurrentPackageRefreshNeeded env w =
     (case lastCurrentUpdate w of
        None \<Rightarrow> (True, w)
      | Some t \<Rightarrow> (case newDate env w of (now, w1) \<Rightarrow> (t - now > 86400000, w1)))"

definition markCurrentPackageRefreshed :: "env \<Rightarrow> world \<Rightarrow> world" where
  "markCurrentPackageRefreshed env w =
     (case newDate env w of (now, w1) \<Rightarrow> w1\<lparr>lastCurrentUpdate := Some now\<rparr>)"

text \<open>The static \<^verbatim>\<open>cache\<close> is a plain object, \<^verbatim>\<open>{}\<close>, so \<^verbatim>\<open>this.cache[pkg]\<close> also finds
  the properties such an object inherits from \<^verbatim>\<open>Object.prototype\<close>. These are their names;
  each of them is a function, and \<^verbatim>\<open>__proto__\<close> is the prototype itself.\<close>

definition objectPrototypeKeys :: "string list" where
  "objectPrototypeKeys =
     [''constructor'', ''__defineGetter__'', ''__defineSetter__'', ''hasOwnProperty'',
      ''__lookupGetter__'', ''__lookupSetter__'', ''isPrototypeOf'', ''propertyIsEnumerable'',
      ''toString'', ''valueOf'', ''__proto__'', ''toLocaleString'']"

text \<open>What \<^verbatim>\<open>this.cache[pkg]\<close> evaluates to when it is not \<^verbatim>\<open>undefined\<close>: a package that
  \<^verbatim>\<open>put\<close> stored, or the inherited property of that name, which is truthy and has no
  \<^verbatim>\<open>package\<close>, \<^verbatim>\<open>defs\<close> or \<^verbatim>\<open>packageJson\<close>.\<close>

datatype cacheValue = Package LoadedPackage | Inherited string

text \<open>\<^verbatim>\<open>PackageCache.get(pkg)\<close> is \<^verbatim>\<open>this.cache[pkg]\<close>: an own property comes before an
  inherited one. \<^verbatim>\<open>PackageCache.contains(pkg)\<close> is \<^verbatim>\<open>!!this.cache[pkg]\<close>, and every value
  found is truthy. \<^verbatim>\<open>PackageCache.put(pkg, loadedPackage)\<close> is the assignment
  \<^verbatim>\<open>this.cache[pkg] = loadedPackage\<close>; \<^verbatim>\<open>loadFromPath\<close>, its one caller, reaches it only
  with a key that \<^verbatim>\<open>contains\<close> has just refused, where it creates an own property.\<close>

definition PackageCache_get :: "world \<Rightarrow> string \<Rightarrow> cacheValue option" where
  "PackageCache_get w pkg =
     (case cache w pkg of
        Some loadedPackage \<Rightarrow> Some (Package loadedPackage)
      | None \<Rightarrow> if pkg \<in> set objectPrototypeKeys then Some (Inherited pkg) else None)"

definition PackageCache_contains :: "world \<Rightarrow> string \<Rightarrow> bool" where
  "PackageCache_contains w pkg = (PackageCache_get w pkg \<noteq> None)"

definition PackageCache_put :: "string \<Rightarrow> LoadedPackage \<Rightarrow> world \<Rightarrow> world" where
  "PackageCache_put pkg loadedPackage w = w\<lparr>cache := (cache w)(pkg \<mapsto> loadedPackage)\<rparr>"

text \<open>\<^verbatim>\<open>getCustomRegistry()\<close> is imported from \<^verbatim>\<open>./utils/customRegistry\<close>; its result is the
  field \<open>customRegistry\<close> of the environment, and \<^verbatim>\<open>if (customRegistry)\<close> is false on the
  empty string too.\<close>

definition activeRegistry :: "env \<Rightarrow> string option" where
  "activeRegistry env =
     (case customRegistry env of None \<Rightarrow> None | Some r \<Rightarrow> if r = [] then None else Some r)"

text \<open>\<^verbatim>\<open>registry.replace(/\/$/, '')\<close>.\<close>

definition stripSlash :: "string \<Rightarrow> string" where
  "stripSlash r = (if endsWith ''/'' r then butlast r else r)"

subsection \<open>cleanCachedPackage\<close>

definition remove_entry :: "string \<Rightarrow> (string \<times> 'a) list \<Rightarrow> (string \<times> 'a) list" where
  "remove_entry k es = filter (\<lambda>e. fst e \<noteq> k) es"

text \<open>\<^verbatim>\<open>fs.renameSync(dir/file, dir/package/file)\<close> on the entries of \<^verbatim>\<open>dir\<close>, with the
  outcomes of \<^verbatim>\<open>rename(2)\<close>: a file replaces a file, a directory replaces an empty
  directory, every other meeting of two entries is an error.\<close>

definition renameIntoPackage ::
  "string \<Rightarrow> (string \<times> node) list \<Rightarrow> error + (string \<times> node) list" where
  "renameIntoPackage file es =
     (case map_of es file of
        None \<Rightarrow> Inl (SystemError ''ENOENT'')
      | Some n \<Rightarrow>
         (case map_of es ''package'' of
            None \<Rightarrow> Inl (SystemError ''ENOENT'')
          | Some (File _) \<Rightarrow> Inl (SystemError ''ENOTDIR'')
          | Some (Dir ps) \<Rightarrow>
             (let moved = put_entry ''package'' (Dir (put_entry file n ps)) (remove_entry file es)
              in case (map_of ps file, n) of
                   (None, _) \<Rightarrow> Inr moved
                 | (Some (File _), File _) \<Rightarrow> Inr moved
                 | (Some (File _), Dir _) \<Rightarrow> Inl (SystemError ''ENOTDIR'')
                 | (Some (Dir []), Dir _) \<Rightarrow> Inr moved
                 | (Some (Dir (_ # _)), Dir _) \<Rightarrow> Inl (SystemError ''ENOTEMPTY'')
                 | (Some (Dir _), File _) \<Rightarrow> Inl (SystemError ''EISDIR''))))"

fun renameAll :: "string list \<Rightarrow> (string \<times> node) list \<Rightarrow> error + (string \<times> node) list" where
  "renameAll [] es = Inr es"
| "renameAll (file # rest) es =
     (case renameIntoPackage file es of Inl e \<Rightarrow> Inl e | Inr es' \<Rightarrow> renameAll rest es')"

text \<open>The argument is the listing of \<^verbatim>\<open>packageDirectory\<close>, the result the listing after the
  call.\<close>

definition cleanCachedPackage :: "(string \<times> node) list \<Rightarrow> error + (string \<times> node) list" where
  "cleanCachedPackage es =
     (if map_of es ''package'' \<noteq> None
      then renameAll (filter (\<lambda>file. file \<noteq> ''package'') (map fst es)) es
      else Inr es)"

subsection \<open>loadFromPath\<close>

text \<open>\<^verbatim>\<open>toLowerCase\<close> on the letters of ASCII; the names of packages and versions are taken
  to hold no other cased letter.\<close>

definition toLowerCase :: "string \<Rightarrow> string" where
  "toLowerCase s =
     map (\<lambda>c. case map_of (zip ''ABCDEFGHIJKLMNOPQRSTUVWXYZ'' ''abcdefghijklmnopqrstuvwxyz'') c of
                 None \<Rightarrow> c | Some l \<Rightarrow> l) s"

text \<open>The \<^verbatim>\<open>forEach\<close> over the \<^verbatim>\<open>.json\<close> files: \<open>JSON_parse\<close> reads the trimmed text.\<close>

fun readDefs :: "env \<Rightarrow> (string \<times> node) list \<Rightarrow> LoadedPackage \<Rightarrow> error + LoadedPackage" where
  "readDefs env [] result = Inr result"
| "readDefs env ((file, n) # rest) result =
     (case n of
        Dir _ \<Rightarrow> Inl (SystemError ''EISDIR'')
      | File text \<Rightarrow>
         (case JSON_parse env text of
            None \<Rightarrow> Inl SyntaxError
          | Some def \<Rightarrow>
              readDefs env rest
                (result\<lparr>defs := defs result @ [def],
                        packageJson := (if file = ''package.json'' then Some def
                                        else packageJson result)\<rparr>)))"

text \<open>\<^verbatim>\<open>fs.existsSync(cachePath) ? fs.readdirSync(cachePath) : []\<close>.\<close>

definition listCache :: "node option \<Rightarrow> error + (string \<times> node) list" where
  "listCache root =
     (case root of
        None \<Rightarrow> Inr []
      | Some (File _) \<Rightarrow> Inl (SystemError ''ENOTDIR'')
      | Some (Dir es) \<Rightarrow> Inr es)"

text \<open>\<^verbatim>\<open>fs.readdirSync(path.join(cachePath, cachedPackage, 'package'))\<close>, from the entry
  found.\<close>

definition packageFiles :: "node \<Rightarrow> error + (string \<times> node) list" where
  "packageFiles n =
     (case n of
        File _ \<Rightarrow> Inl (SystemError ''ENOTDIR'')
      | Dir ds \<Rightarrow>
         (case map_of ds ''package'' of
            None \<Rightarrow> Inl (SystemError ''ENOENT'')
          | Some (File _) \<Rightarrow> Inl (SystemError ''ENOTDIR'')
          | Some (Dir files) \<Rightarrow> Inr files))"

text \<open>The result is \<open>None\<close> where the function returns \<^verbatim>\<open>null\<close>. \<^verbatim>\<open>readdirSync\<close> lists every
  entry of the cache path, files as well as directories, and \<^verbatim>\<open>!cachedPackage\<close> holds of
  an entry found under the empty name too.\<close>

definition loadFromPath ::
  "env \<Rightarrow> string \<Rightarrow> string \<Rightarrow> world \<Rightarrow> (error + cacheValue option) \<times> world" where
  "loadFromPath env cachePath targetPackage w =
     (if PackageCache_contains w targetPackage
      then (Inr (PackageCache_get w targetPackage), w)
      else
         (case listCache (fsAt w cachePath) of
            Inl e \<Rightarrow> (Inl e, w)
          | Inr packages \<Rightarrow>
             (case find (\<lambda>e. toLowerCase (fst e) = targetPackage) packages of
                None \<Rightarrow> (Inr None, w)
              | Some (cachedPackage, n) \<Rightarrow>
                 if cachedPackage = [] then (Inr None, w)
                 else
                  (case packageFiles n of
                     Inl e \<Rightarrow> (Inl e, w)
                   | Inr files \<Rightarrow>
                      (case readDefs env (filter (\<lambda>f. endsWith ''.json'' (fst f)) files)
                              \<lparr>package = targetPackage, defs = [], packageJson = None\<rparr> of
                         Inl e \<Rightarrow> (Inl e, w)
                       | Inr result \<Rightarrow>
                           (Inr (Some (Package result)),
                            PackageCache_put targetPackage result w))))))"

subsection \<open>Version look-ups\<close>

text \<open>
  \<^verbatim>\<open>maxSatisfying(versions, range)\<close> comes from the package \<^verbatim>\<open>semver\<close>, which is not among
  the sources. It is modelled from the spec, for the ranges \<^verbatim>\<open>lookUpLatestPatchVersion\<close>
  passes: for a patch range \<^verbatim>\<open>X.Y.x\<close> it is the highest version satisfying the range under
  semantic-version precedence, a version carrying a pre-release or build qualifier being
  excluded.
\<close>

text \<open>The value of a digit and of a run of digits.\<close>

definition digitValue :: "char \<Rightarrow> nat" where
  "digitValue c =
     (case map_of (zip ''0123456789'' [0, 1, 2, 3, 4, 5, 6, 7, 8, 9]) c of
        None \<Rightarrow> 0 | Some d \<Rightarrow> d)"

definition natOfDigits :: "string \<Rightarrow> nat" where
  "natOfDigits s = foldl (\<lambda>n c. 10 * n + digitValue c) 0 s"

text \<open>Modelled from the spec: a numeric identifier of a semantic version, read by the missing
  \<^verbatim>\<open>maxSatisfying\<close>: digits, without a leading zero unless it is the zero.\<close>

definition numericId :: "string \<Rightarrow> nat option" where
  "numericId s =
     (if digits1 s \<and> (length s = 1 \<or> take 1 s \<noteq> ''0'') then Some (natOfDigits s) else None)"

text \<open>Modelled from the spec: a version without a qualifier, \<^verbatim>\<open>X.Y.Z\<close>, as the missing
  \<^verbatim>\<open>maxSatisfying\<close> reads it; a version with anything after the patch number does not
  parse.\<close>

definition parsePlain :: "string \<Rightarrow> (nat \<times> nat \<times> nat) option" where
  "parsePlain v =
     (case split_on CHR ''.'' v of
        [a, b, c] \<Rightarrow>
          (case (numericId a, numericId b, numericId c) of
             (Some x, Some y, Some z) \<Rightarrow> Some (x, y, z)
           | _ \<Rightarrow> None)
      | _ \<Rightarrow> None)"

text \<open>Modelled from the spec: the patch range \<^verbatim>\<open>X.Y.x\<close> as the missing \<^verbatim>\<open>maxSatisfying\<close>
  reads it.\<close>

definition parsePatchRange :: "string \<Rightarrow> (nat \<times> nat) option" where
  "parsePatchRange r =
     (case split_on CHR ''.'' r of
        [a, b, c] \<Rightarrow>
          (case (numericId a, numericId b) of
             (Some x, Some y) \<Rightarrow> if c = ''x'' then Some (x, y) else None
           | _ \<Rightarrow> None)
      | _ \<Rightarrow> None)"

text \<open>Modelled from the spec: a version satisfies the patch range, in the missing
  \<^verbatim>\<open>maxSatisfying\<close>, when it has no qualifier and the range's major and minor numbers.\<close>

definition satisfiesPatch :: "string \<Rightarrow> string \<Rightarrow> bool" where
  "satisfiesPatch rng v =
     (case (parsePatchRange rng, parsePlain v) of
        (Some (x, y), Some (a, b, c)) \<Rightarrow> a = x \<and> b = y
      | _ \<Rightarrow> False)"

text \<open>Modelled from the spec: semantic-version precedence in the missing \<^verbatim>\<open>maxSatisfying\<close>:
  among the versions that satisfy one patch range it is the order of the patch numbers.\<close>

definition patchOf :: "string \<Rightarrow> nat" where
  "patchOf v = (case parsePlain v of Some (a, b, c) \<Rightarrow> c | None \<Rightarrow> 0)"

text \<open>Modelled from the spec: one step of the missing \<^verbatim>\<open>maxSatisfying\<close>: a version that
  satisfies the range replaces the best so far only when it is strictly higher.\<close>

definition maxStep :: "string \<Rightarrow> string \<Rightarrow> string option \<Rightarrow> string option" where
  "maxStep rng v best =
     (if satisfiesPatch rng v \<and>
         (case best of None \<Rightarrow> True | Some b \<Rightarrow> patchOf b < patchOf v)
      then Some v else best)"

text \<open>Modelled from the spec: \<^verbatim>\<open>maxSatisfying(versions, range)\<close> of the package \<^verbatim>\<open>semver\<close>,
  which is missing: the highest listed version that satisfies the range, \<^verbatim>\<open>null\<close> when there
  is none.\<close>

definition maxSatisfying :: "string list \<Rightarrow> string \<Rightarrow> string option" where
  "maxSatisfying vs rng = fold (maxStep rng) vs None"

text \<open>The \<^verbatim>\<open>try\<close> block that both look-ups share: the custom registry alone when one is
  configured, otherwise \<^verbatim>\<open>packages.fhir.org\<close> and, when that request throws,
  \<^verbatim>\<open>packages2.fhir.org\<close>. \<open>Inl\<close> is the error that reaches the outer \<^verbatim>\<open>catch\<close>.\<close>

definition fetchPackageInfo ::
  "env \<Rightarrow> string \<Rightarrow> world \<Rightarrow> (string + registryInfo option) \<times> world" where
  "fetchPackageInfo env packageName w =
     (case activeRegistry env of
        Some registry \<Rightarrow>
          (let url = stripSlash registry @ ''/'' @ packageName; w1 = axiosGet url w
           in case registryAt env url of
                Throws m \<Rightarrow> (Inl m, w1)
              | Response d \<Rightarrow> (Inr d, w1))
      | None \<Rightarrow>
          (let url = ''https://packages.fhir.org/'' @ packageName; w1 = axiosGet url w
           in case registryAt env url of
                Response d \<Rightarrow> (Inr d, w1)
              | Throws _ \<Rightarrow>
                 (let url2 = ''https://packages2.fhir.org/packages/'' @ packageName;
                      w2 = axiosGet url2 w1
                  in case registryAt env url2 of
                       Throws m \<Rightarrow> (Inl m, w2)
                     | Response d \<Rightarrow> (Inr d, w2))))"

definition lookUpLatestVersion :: "env \<Rightarrow> string \<Rightarrow> world \<Rightarrow> (error + string) \<times> world" where
  "lookUpLatestVersion env packageName w =
     (case fetchPackageInfo env packageName w of
        (Inl _, w') \<Rightarrow>
          (Inl (LatestVersionUnavailableError packageName (customRegistry env) False), w')
      | (Inr d, w') \<Rightarrow>
          (case (case d of None \<Rightarrow> None | Some info \<Rightarrow> latestTag info) of
             Some latest \<Rightarrow>
               if latest \<noteq> [] then (Inr latest, w')
               else (Inl (LatestVersionUnavailableError packageName (customRegistry env) False), w')
           | None \<Rightarrow>
               (Inl (LatestVersionUnavailableError packageName (customRegistry env) False), w')))"

definition lookUpLatestPatchVersion ::
  "env \<Rightarrow> string \<Rightarrow> string \<Rightarrow> world \<Rightarrow> (error + string) \<times> world" where
  "lookUpLatestPatchVersion env packageName version w =
     (if \<not> isPatchWildcard version
      then (Inl (IncorrectWildcardVersionFormatError packageName version), w)
      else
       (case fetchPackageInfo env packageName w of
          (Inl _, w') \<Rightarrow>
            (Inl (LatestVersionUnavailableError packageName (customRegistry env) True), w')
        | (Inr d, w') \<Rightarrow>
            (case (case d of None \<Rightarrow> None | Some info \<Rightarrow> versions info) of
               Some vs \<Rightarrow>
                 (case maxSatisfying (map fst vs) version of
                    None \<Rightarrow>
                      (Inl (LatestVersionUnavailableError packageName (customRegistry env) True),
                       w')
                  | Some latest \<Rightarrow> (Inr latest, w'))
             | None \<Rightarrow>
                 (Inl (LatestVersionUnavailableError packageName (customRegistry env) True),
                  w'))))"

definition getDistUrl ::
  "env \<Rightarrow> string \<Rightarrow> string \<Rightarrow> string \<Rightarrow> world \<Rightarrow> (error + string) \<times> world" where
  "getDistUrl env registry packageName version w =
     (let cleanedRegistry = stripSlash registry;
          url = cleanedRegistry @ ''/'' @ packageName;
          w1 = axiosGet url w
      in case registryAt env url of
           Throws m \<Rightarrow> (Inl (RequestError m), w1)
         | Response d \<Rightarrow>
            (let npmLocation =
                   (case d of
                      None \<Rightarrow> None
                    | Some info \<Rightarrow>
                       (case versions info of
                          None \<Rightarrow> None
                        | Some vs \<Rightarrow>
                           (case map_of vs version of
                              Some (Some tarball) \<Rightarrow> if tarball \<noteq> [] then Some tarball else None
                            | _ \<Rightarrow> None)))
             in case npmLocation of
                  Some l \<Rightarrow> (Inr l, w1)
                | None \<Rightarrow> (Inr (cleanedRegistry @ ''/'' @ packageName @ ''/'' @ version), w1)))"


subsection \<open>mergeDependency\<close>

text \<open>The version resolution at the head of \<^verbatim>\<open>mergeDependency\<close>.\<close>

definition resolveVersion ::
  "env \<Rightarrow> string \<Rightarrow> string \<Rightarrow> world \<Rightarrow> (error + string) \<times> world" where
  "resolveVersion env packageName version w =
     (if version = ''latest'' then lookUpLatestVersion env packageName w
      else if isPatchWildcard version then lookUpLatestPatchVersion env packageName version w
      else if isMinorWildcard version
        then (Inl (IncorrectWildcardVersionFormatError packageName version), w)
      else (Inr version, w))"

text \<open>The \<^verbatim>\<open>dev\<close> fallback: the version, the cache key and the loaded package after it.\<close>

definition devFallback ::
  "env \<Rightarrow> string \<Rightarrow> string \<Rightarrow> string \<Rightarrow> string \<Rightarrow> cacheValue option \<Rightarrow> world \<Rightarrow>
     (error + string \<times> string \<times> cacheValue option) \<times> world" where
  "devFallback env packageName version fullPackageName cachePath loadedPackage w =
     (if version = ''dev'' \<and> loadedPackage = None then
        (let w1 = logMsg ''info''
               (''Falling back to '' @ packageName @ ''#current since '' @ fullPackageName @
                '' is not locally cached. To avoid this, add '' @ fullPackageName @
                '' to your local FHIR cache by building it locally with the HL7 FHIR IG Publisher.'')
               w
         in case loadFromPath env cachePath (packageName @ ''#current'') w1 of
              (Inl e, w2) \<Rightarrow> (Inl e, w2)
            | (Inr l, w2) \<Rightarrow> (Inr (''current'', packageName @ ''#current'', l), w2))
      else (Inr (version, fullPackageName, loadedPackage), w))"

text \<open>\<^verbatim>\<open>Array.prototype.sort\<close> with a comparator, as the stable insertion sort; a difference
  of dates of which one does not parse is \<^verbatim>\<open>NaN\<close>, which \<^verbatim>\<open>sort\<close> reads as 0.\<close>

definition dateValue :: "env \<Rightarrow> QAEntry \<Rightarrow> int option" where
  "dateValue env p = (case date p of None \<Rightarrow> None | Some s \<Rightarrow> Date_parse env s)"

definition compareNewest :: "env \<Rightarrow> QAEntry \<Rightarrow> QAEntry \<Rightarrow> int" where
  "compareNewest env p1 p2 =
     (case (dateValue env p2, dateValue env p1) of
        (Some a, Some b) \<Rightarrow> a - b
      | _ \<Rightarrow> 0)"

fun insertSorted :: "('a \<Rightarrow> 'a \<Rightarrow> int) \<Rightarrow> 'a \<Rightarrow> 'a list \<Rightarrow> 'a list" where
  "insertSorted cmp x [] = [x]"
| "insertSorted cmp x (y # ys) =
     (if cmp x y > 0 then y # insertSorted cmp x ys else x # y # ys)"

definition sortWith :: "('a \<Rightarrow> 'a \<Rightarrow> int) \<Rightarrow> 'a list \<Rightarrow> 'a list" where
  "sortWith cmp xs = foldr (insertSorted cmp) xs []"

text \<open>The newest matching entry of the listing; \<open>branch\<close> is the text after the dollar.\<close>

definition newestPackage ::
  "env \<Rightarrow> string \<Rightarrow> string option \<Rightarrow> QAEntry list option \<Rightarrow> QAEntry option" where
  "newestPackage env packageName branch qaData =
     (case qaData of
        None \<Rightarrow> None
      | Some qs \<Rightarrow>
         if length qs > 0 then
           (let matchingPackages = filter (\<lambda>p. package_id p = packageName) qs;
                matchingPackages' =
                  (case branch of
                     None \<Rightarrow>
                       filter (\<lambda>p. endsWith ''/master/qa.json'' (repo p) \<or>
                                    endsWith ''/main/qa.json'' (repo p)) matchingPackages
                   | Some b \<Rightarrow>
                       filter (\<lambda>p. endsWith (''/'' @ b @ ''/qa.json'') (repo p)) matchingPackages)
            in nth_opt (sortWith (compareNewest env) matchingPackages') 0)
         else None)"

text \<open>\<^verbatim>\<open>fs.existsSync(path.join(loadPath, 'package.json'))\<close> and \<^verbatim>\<open>fs.readJSONSync\<close> of it,
  \<^verbatim>\<open>loadPath\<close> being \<^verbatim>\<open>cachePath/key/package\<close>; paths are matched by their exact names.\<close>

definition readCachedPackageJSON :: "env \<Rightarrow> node option \<Rightarrow> string \<Rightarrow> error + json option" where
  "readCachedPackageJSON env root key =
     (case root of
        Some (Dir es) \<Rightarrow>
          (case map_of es key of
             Some (Dir ds) \<Rightarrow>
               (case map_of ds ''package'' of
                  Some (Dir files) \<Rightarrow>
                    (case map_of files ''package.json'' of
                       None \<Rightarrow> Inr None
                     | Some (Dir _) \<Rightarrow> Inl (SystemError ''EISDIR'')
                     | Some (File text) \<Rightarrow>
                        (case JSON_parse env text of
                           None \<Rightarrow> Inl SyntaxError
                         | Some j \<Rightarrow> Inr (Some j)))
                | _ \<Rightarrow> Inr None)
           | _ \<Rightarrow> Inr None)
      | _ \<Rightarrow> Inr None)"

text \<open>Truthiness of a parsed value, and \<^verbatim>\<open>===\<close> on two values that come from two different
  parses (two objects or arrays are never the same one).\<close>

definition truthy :: "json \<Rightarrow> bool" where
  "truthy j =
     (case j of
        JNull \<Rightarrow> False | JBool b \<Rightarrow> b | JNum n \<Rightarrow> n \<noteq> 0 | JStr s \<Rightarrow> s \<noteq> []
      | JArr _ \<Rightarrow> True | JObj _ \<Rightarrow> True)"

definition strictEq :: "json option \<Rightarrow> json option \<Rightarrow> bool" where
  "strictEq a b =
     (case (a, b) of
        (None, None) \<Rightarrow> True
      | (Some JNull, Some JNull) \<Rightarrow> True
      | (Some (JBool x), Some (JBool y)) \<Rightarrow> x = y
      | (Some (JNum x), Some (JNum y)) \<Rightarrow> x = y
      | (Some (JStr x), Some (JStr y)) \<Rightarrow> x = y
      | _ \<Rightarrow> False)"

text \<open>\<^verbatim>\<open>formatDate\<close>: the first run of fourteen digits is rewritten; a truthy value that
  is not a string has no \<^verbatim>\<open>replace\<close>.\<close>

fun formatDateString :: "string \<Rightarrow> string" where
  "formatDateString [] = []"
| "formatDateString (c # cs) =
     (let s = c # cs in
      if 14 \<le> length s \<and> list_all isDigit (take 14 s)
      then take 4 s @ ''-'' @ take 2 (drop 4 s) @ ''-'' @ take 2 (drop 6 s) @ ''T'' @
           take 2 (drop 8 s) @ '':'' @ take 2 (drop 10 s) @ '':'' @ take 2 (drop 12 s) @
           drop 14 s
      else c # formatDateString cs)"

definition formatDate :: "json option \<Rightarrow> error + string" where
  "formatDate d =
     (case d of
        None \<Rightarrow> Inr []
      | Some (JStr s) \<Rightarrow> Inr (formatDateString s)
      | Some j \<Rightarrow> if truthy j then Inl TypeError else Inr [])"

text \<open>The comparison of the manifest's date with the cached package's date: the URL to
  download from, or none when the cached package is to be used.\<close>

definition checkManifest ::
  "env \<Rightarrow> string \<Rightarrow> string \<Rightarrow> string \<Rightarrow> string \<Rightarrow> world \<Rightarrow> (error + string option) \<times> world" where
  "checkManifest env cachePath loadKey fullPackageName igUrl w =
     (let w1 = axiosGet (igUrl @ ''/package.manifest.json'') w
      in case manifestAt env (igUrl @ ''/package.manifest.json'') of
           Throws m \<Rightarrow> (Inl (RequestError m), w1)
         | Response manifestData \<Rightarrow>
            (case readCachedPackageJSON env (fsAt w1 cachePath) loadKey of
               Inl e \<Rightarrow> (Inl e, w1)
             | Inr cachedPackageJSON \<Rightarrow>
                (let manifestDate = (case manifestData of None \<Rightarrow> None | Some j \<Rightarrow> field ''date'' j);
                     cachedDate = (case cachedPackageJSON of None \<Rightarrow> None | Some j \<Rightarrow> field ''date'' j)
                 in if \<not> strictEq manifestDate cachedDate then
                      (if (case cachedPackageJSON of None \<Rightarrow> False | Some j \<Rightarrow> truthy j) then
                         (case (formatDate cachedDate, formatDate manifestDate) of
                            (Inr c, Inr m) \<Rightarrow>
                              (Inr (Some (igUrl @ ''/package.tgz'')),
                               logMsg ''info''
                                 (''Cached package '' @ fullPackageName @
                                  '' is out of date and will be replaced by the more recent version found on build.fhir.org.'')
                                 (logMsg ''debug''
                                    (''Cached package date for '' @ fullPackageName @ '' ('' @ c @
                                     '') does not match last build date on build.fhir.org ('' @ m @ '')'')
                                    w1))
                          | _ \<Rightarrow> (Inl TypeError, w1))
                       else (Inr (Some (igUrl @ ''/package.tgz'')), w1))
                    else
                      (if cachedPackageJSON = None \<or> cachedPackageJSON = Some JNull
                       then (Inl TypeError, w1)
                       else
                        (case (formatDate cachedDate, formatDate manifestDate) of
                           (Inr c, Inr m) \<Rightarrow>
                             (Inr None,
                              logMsg ''debug''
                                (''Cached package date for '' @ fullPackageName @ '' ('' @ c @
                                 '') matches last build date on build.fhir.org ('' @ m @
                                 ''), so the cached package will be used'')
                                w1)
                         | _ \<Rightarrow> (Inl TypeError, w1))))))"

text \<open>The branch for \<^verbatim>\<open>current\<close> and \<^verbatim>\<open>current$branch\<close>.\<close>

definition currentPackageUrl ::
  "env \<Rightarrow> string \<Rightarrow> string \<Rightarrow> string \<Rightarrow> string \<Rightarrow> string \<Rightarrow> world \<Rightarrow>
     (error + string option) \<times> world" where
  "currentPackageUrl env packageName version fullPackageName loadKey cachePath w =
     (case isCurrentPackageRefreshNeeded env w of
        (needed, w1) \<Rightarrow>
          if needed then
            (let w3 = markCurrentPackageRefreshed env w1;
                 branch = (if CHR ''$'' \<in> set version
                           then Some (drop 1 (dropWhile (\<lambda>c. c \<noteq> CHR ''$'') version))
                           else None);
                 baseUrl = ''https://build.fhir.org/ig'';
                 w4 = axiosGet (baseUrl @ ''/qas.json'') w3
             in case qasAt env (baseUrl @ ''/qas.json'') of
                  Throws m \<Rightarrow> (Inl (RequestError m), w4)
                | Response qaData \<Rightarrow>
                   (case newestPackage env packageName branch qaData of
                      None \<Rightarrow> (Inl (CurrentPackageLoadError fullPackageName), w4)
                    | Some newest \<Rightarrow>
                       if repo newest \<noteq> [] then
                         checkManifest env cachePath loadKey fullPackageName
                           (baseUrl @ ''/'' @ take (length (repo newest) - 8) (repo newest)) w4
                       else (Inl (CurrentPackageLoadError fullPackageName), w4)))
          else (Inr None, w1))"

text \<open>The chain that sets \<^verbatim>\<open>packageUrl\<close>; \<open>loadKey\<close> is the cache key \<^verbatim>\<open>loadPath\<close> was
  built from, before the \<^verbatim>\<open>dev\<close> fallback.\<close>

definition choosePackageUrl ::
  "env \<Rightarrow> string \<Rightarrow> string \<Rightarrow> string \<Rightarrow> string \<Rightarrow> string \<Rightarrow> cacheValue option \<Rightarrow> world \<Rightarrow>
     (error + string option) \<times> world" where
  "choosePackageUrl env packageName version fullPackageName loadKey cachePath loadedPackage w =
     (if startsWith ''hl7.fhir.r5.'' packageName \<and> version = ''current'' then
        (Inr (Some (''https://build.fhir.org/'' @ packageName @ ''.tgz'')),
         if loadedPackage \<noteq> None then
           logMsg ''info''
             (''Downloading '' @ fullPackageName @
              '' since FHIR Package Loader cannot determine if the version in '' @ cachePath @
              '' is the most recent build.'') w
         else w)
      else if isCurrentVersion version then
        currentPackageUrl env packageName version fullPackageName loadKey cachePath w
      else if loadedPackage = None then
        (case activeRegistry env of
           Some registry \<Rightarrow>
             (case getDistUrl env registry packageName version w of
                (Inl e, w1) \<Rightarrow> (Inl e, w1)
              | (Inr url, w1) \<Rightarrow> (Inr (Some url), w1))
         | None \<Rightarrow> (Inr (Some (''https://packages.fhir.org/'' @ packageName @ ''/'' @ version)), w))
      else (Inr None, w))"

text \<open>\<^verbatim>\<open>doDownload(url)\<close>: the result is the value of the variable \<^verbatim>\<open>loadedPackage\<close> after
  the call. The extracted directory replaces the entry of that exact name in the cache
  directory, which \<^verbatim>\<open>moveSync\<close> creates when it is missing; the new entry is listed last.\<close>

definition doDownload ::
  "env \<Rightarrow> string \<Rightarrow> string \<Rightarrow> cacheValue option \<Rightarrow> string \<Rightarrow> world \<Rightarrow>
     (error + cacheValue option) \<times> world" where
  "doDownload env cachePath fullPackageName loadedPackage url w =
     (let w1 = axiosGet url (logMsg ''info'' (''Downloading '' @ fullPackageName @ ''... '' @ url) w)
      in case tarballAt env url of
           Throws m \<Rightarrow> (Inl (RequestError m), w1)
         | Response None \<Rightarrow>
             (Inr loadedPackage,
              logMsg ''info'' (''Unable to download most current version of '' @ fullPackageName) w1)
         | Response (Some data) \<Rightarrow>
            (let w2 = logMsg ''info'' (''Downloaded '' @ fullPackageName) w1
             in case data of
                  Corrupt \<Rightarrow> (Inl TarError, w2)
                | Extracts tempDirectory \<Rightarrow>
                   (case cleanCachedPackage tempDirectory of
                      Inl e \<Rightarrow> (Inl e, w2)
                    | Inr cleaned \<Rightarrow>
                       (case listCache (fsAt w2 cachePath) of
                          Inl e \<Rightarrow> (Inl e, w2)
                        | Inr es \<Rightarrow>
                            loadFromPath env cachePath fullPackageName
                              (w2\<lparr>fsAt := (fsAt w2)
                                     (cachePath \<mapsto>
                                        Dir (remove_entry fullPackageName es @
                                             [(fullPackageName, Dir cleaned)]))\<rparr>)))))"

text \<open>The \<^verbatim>\<open>if (packageUrl)\<close> block with its \<^verbatim>\<open>try\<close> and the fallback to
  \<^verbatim>\<open>packages2.fhir.org\<close>.\<close>

definition downloadPackage ::
  "env \<Rightarrow> string \<Rightarrow> string \<Rightarrow> string \<Rightarrow> string \<Rightarrow> cacheValue option \<Rightarrow> string option \<Rightarrow>
     world \<Rightarrow> (error + cacheValue option) \<times> world" where
  "downloadPackage env packageName version fullPackageName cachePath loadedPackage packageUrl w =
     (case packageUrl of
        None \<Rightarrow> (Inr loadedPackage, w)
      | Some url \<Rightarrow>
         if url = [] then (Inr loadedPackage, w)
         else
          (case doDownload env cachePath fullPackageName loadedPackage url w of
             (Inr l, w1) \<Rightarrow> (Inr l, w1)
           | (Inl _, w1) \<Rightarrow>
              if url = ''https://packages.fhir.org/'' @ packageName @ ''/'' @ version then
                (case doDownload env cachePath fullPackageName loadedPackage
                        (''https://packages2.fhir.org/packages/'' @ packageName @ ''/'' @ version) w1 of
                   (Inr l, w2) \<Rightarrow> (Inr l, w2)
                 | (Inl _, w2) \<Rightarrow> (Inl (PackageLoadError fullPackageName None), w2))
              else (Inl (PackageLoadError fullPackageName (customRegistry env)), w1)))"

text \<open>\<^verbatim>\<open>mergeDependency\<close>: \<open>requested\<close> is the argument \<^verbatim>\<open>version\<close>. At the end
  \<^verbatim>\<open>merge(loadedPackage, FHIRDefs)\<close> reads \<^verbatim>\<open>pkg.defs.forEach\<close>, a \<^verbatim>\<open>TypeError\<close> on a value
  without \<^verbatim>\<open>defs\<close>.\<close>

definition mergeDependency ::
  "env \<Rightarrow> string \<Rightarrow> string \<Rightarrow> FHIRDefinitions \<Rightarrow> string \<Rightarrow> world \<Rightarrow>
     (error + FHIRDefinitions) \<times> world" where
  "mergeDependency env packageName requested FHIRDefs cachePath w =
     (case resolveVersion env packageName requested w of
        (Inl e, w0) \<Rightarrow> (Inl e, w0)
      | (Inr version, w0) \<Rightarrow>
         (let fullPackageName = packageName @ ''#'' @ version;
              w1 = logMsg ''info'' (''Checking '' @ cachePath @ '' for '' @ fullPackageName @ ''...'') w0
          in case loadFromPath env cachePath fullPackageName w1 of
               (Inl e, w2) \<Rightarrow> (Inl e, w2)
             | (Inr loadedPackage, w2) \<Rightarrow>
                (let w3 = (if loadedPackage \<noteq> None
                           then logMsg ''info'' (''Found '' @ fullPackageName @ '' in '' @ cachePath @ ''.'') w2
                           else logMsg ''info''
                                  (''Did not find '' @ fullPackageName @ '' in '' @ cachePath @ ''.'') w2)
                 in case devFallback env packageName version fullPackageName cachePath loadedPackage w3 of
                      (Inl e, w4) \<Rightarrow> (Inl e, w4)
                    | (Inr (version', fullPackageName', loadedPackage'), w4) \<Rightarrow>
                       (case choosePackageUrl env packageName version' fullPackageName' fullPackageName
                               cachePath loadedPackage' w4 of
                          (Inl e, w5) \<Rightarrow> (Inl e, w5)
                        | (Inr packageUrl, w5) \<Rightarrow>
                           (case downloadPackage env packageName version' fullPackageName' cachePath
                                   loadedPackage' packageUrl w5 of
                              (Inl e, w6) \<Rightarrow> (Inl e, w6)
                            | (Inr None, w6) \<Rightarrow>
                                (Inl (PackageLoadError fullPackageName' (customRegistry env)), w6)
                            | (Inr (Some (Inherited _)), w6) \<Rightarrow> (Inl TypeError, w6)
                            | (Inr (Some (Package pkg)), w6) \<Rightarrow>
                                (Inr (merge pkg FHIRDefs),
                                 logMsg ''info'' (''Loaded package '' @ fullPackageName') w6))))))"


subsection \<open>loadDependencies\<close>

text \<open>
  \<^verbatim>\<open>loadDependencies\<close> calls \<^verbatim>\<open>exports.mergeDependency\<close>, which a test may replace, so
  the merge is a parameter \<open>md\<close>: from the package id, the version, the fresh store, the
  cache path and the state it gives the outcome of the promise, the fresh store as the call
  left it, and the new state. The parameter \<open>message\<close> reads \<^verbatim>\<open>e.message\<close> and \<open>logf\<close> is the
  \<^verbatim>\<open>log\<close> argument. The promises are run one after the other, in the order of the requests.
\<close>

definition certificateGuidance :: string where
  "certificateGuidance =
     [CHR 0x0A, CHR 0x0A] @
     ''Sometimes this error occurs in corporate or educational environments that use proxies and/or SSL '' @
     ''inspection.'' @ [CHR 0x0A] @ ''Troubleshooting tips:'' @ [CHR 0x0A] @
     ''  1. If a non-proxied network is available, consider connecting to that network instead.'' @
     [CHR 0x0A] @
     ''  2. Set NODE_EXTRA_CA_CERTS as described at https://bit.ly/3ghJqJZ (RECOMMENDED).'' @
     [CHR 0x0A] @
     ''  3. Disable certificate validation as described at https://bit.ly/3syjzm7 (NOT RECOMMENDED).'' @
     [CHR 0x0A]"

definition failureMessage :: "string option \<Rightarrow> string option \<Rightarrow> string \<Rightarrow> string" where
  "failureMessage fhirPackageId fhirPackageVersion m =
     (let message = ''Failed to load '' @ tmpl fhirPackageId @ ''#'' @ tmpl fhirPackageVersion @
                    '': '' @ m
      in if includesStr ''certificate'' m then message @ certificateGuidance else message)"

text \<open>One element of \<^verbatim>\<open>promises\<close>: the call of the merge with its \<^verbatim>\<open>catch\<close>.\<close>

definition loadTask ::
  "(string option \<Rightarrow> string option \<Rightarrow> FHIRDefinitions \<Rightarrow> string \<Rightarrow> 's \<Rightarrow>
      ('e + FHIRDefinitions) \<times> FHIRDefinitions \<times> 's) \<Rightarrow>
   ('e \<Rightarrow> string) \<Rightarrow> (string \<Rightarrow> string \<Rightarrow> 's \<Rightarrow> 's) \<Rightarrow> string \<Rightarrow> string \<Rightarrow> 's \<Rightarrow>
   ('e + FHIRDefinitions) \<times> 's" where
  "loadTask md message logf cachePath fhirPackage w =
     (let parts = split_on CHR ''#'' fhirPackage;
          fhirPackageId = nth_opt parts 0;
          fhirPackageVersion = nth_opt parts 1
      in case md fhirPackageId fhirPackageVersion new_FHIRDefinitions cachePath w of
           (Inr d, fhirDefs, w') \<Rightarrow> (Inr d, w')
         | (Inl e, fhirDefs, w') \<Rightarrow>
             (Inr (set_package (tmpl fhirPackageId @ ''#'' @ tmpl fhirPackageVersion)
                     (set_unsuccessfulPackageLoad True fhirDefs)),
              logf ''error'' (failureMessage fhirPackageId fhirPackageVersion (message e)) w'))"

fun runTasks :: "('a \<Rightarrow> 's \<Rightarrow> 'r \<times> 's) \<Rightarrow> 'a list \<Rightarrow> 's \<Rightarrow> 'r list \<times> 's" where
  "runTasks f [] w = ([], w)"
| "runTasks f (x # xs) w =
     (case f x w of (r, w') \<Rightarrow> (case runTasks f xs w' of (rs, w'') \<Rightarrow> (r # rs, w'')))"

text \<open>\<^verbatim>\<open>Promise.all\<close>: the values in order, or the first rejection.\<close>

fun Promise_all :: "('e + 'a) list \<Rightarrow> 'e + 'a list" where
  "Promise_all [] = Inr []"
| "Promise_all (Inl e # ps) = Inl e"
| "Promise_all (Inr v # ps) = (case Promise_all ps of Inl e \<Rightarrow> Inl e | Inr vs \<Rightarrow> Inr (v # vs))"

text \<open>The result is \<open>None\<close> where the promise resolves to \<^verbatim>\<open>undefined\<close>.\<close>

definition loadDependencies ::
  "(string option \<Rightarrow> string option \<Rightarrow> FHIRDefinitions \<Rightarrow> string \<Rightarrow> 's \<Rightarrow>
      ('e + FHIRDefinitions) \<times> FHIRDefinitions \<times> 's) \<Rightarrow>
   ('e \<Rightarrow> string) \<Rightarrow> (string \<Rightarrow> string \<Rightarrow> 's \<Rightarrow> 's) \<Rightarrow> string list \<Rightarrow> string \<Rightarrow> 's \<Rightarrow>
   ('e + FHIRDefinitions option) \<times> 's" where
  "loadDependencies md message logf fhirPackages cachePath w =
     (case runTasks (loadTask md message logf cachePath) fhirPackages w of
        (promises, w') \<Rightarrow>
          (case Promise_all promises of
             Inl e \<Rightarrow> (Inl e, w')
           | Inr fhirDefs \<Rightarrow>
               if length fhirDefs > 1
               then (Inr (Some (fold push_child fhirDefs new_FHIRDefinitions)), w')
               else (Inr (nth_opt fhirDefs 0), w')))"


subsection \<open>Concrete environments and worlds\<close>

text \<open>An environment in which every request throws and no text parses, and the world of a
  process that has done nothing yet, on an empty disk.\<close>

definition offlineEnv :: env where
  "offlineEnv =
     \<lparr>JSON_parse = (\<lambda>t. None), Date_parse = (\<lambda>s. None), clock = (\<lambda>n. 0),
      customRegistry = None,
      registryAt = (\<lambda>u. Throws ''Not found''), qasAt = (\<lambda>u. Throws ''Not found''),
      manifestAt = (\<lambda>u. Throws ''Not found''), tarballAt = (\<lambda>u. Throws ''Not found'')\<rparr>"

definition emptyWorld :: world where
  "emptyWorld =
     \<lparr>fsAt = (\<lambda>p. None), cache = (\<lambda>k. None), lastCurrentUpdate = None, ticks = 0,
      calls = [], logs = []\<rparr>"



text \<open>The fixtures of the tests of \<^verbatim>\<open>cleanCachedPackage\<close>: a package whose content lies
  beside its \<^verbatim>\<open>package\<close> folder, and one without a \<^verbatim>\<open>package\<close> folder.\<close>

definition wrongFormatPackage :: "(string \<times> node) list" where
  "wrongFormatPackage =
     [(''other'', Dir [(''x.json'', File ''{}'')]),
      (''package'', Dir [(''package.json'', File ''{}'')]),
      (''StructureDefinition-MyPatient.json'', File ''{}'')]"

definition noPackageFolder :: "(string \<times> node) list" where
  "noPackageFolder = [(''StructureDefinition-MyPatient.json'', File ''{}'')]"

text \<open>A build server that serves a new build of the R5 core package, and a cache directory
  that holds an older build of it, a package whose directory name has capitals, a
  \<^verbatim>\<open>current\<close> package and a directory without a \<^verbatim>\<open>package\<close> folder; then the same world
  after the older build has been loaded once.\<close>

definition buildEnv :: env where
  "buildEnv = offlineEnv
     \<lparr>JSON_parse :=
        (\<lambda>t. if t = ''{id: old-build}'' then Some (JObj [(''id'', JStr ''old-build'')])
              else if t = ''{id: new-build}'' then Some (JObj [(''id'', JStr ''new-build'')])
              else None),
      tarballAt :=
        (\<lambda>u. if u = ''https://build.fhir.org/hl7.fhir.r5.core.tgz''
              then Response (Some (Extracts
                     [(''package'', Dir [(''package.json'', File ''{id: new-build}'')])]))
              else Throws ''Not found'')\<rparr>"

definition cachedPackages :: "(string \<times> node) list" where
  "cachedPackages =
     [(''hl7.fhir.r5.core#current'',
         Dir [(''package'', Dir [(''package.json'', File ''{id: old-build}'')])]),
      (''sushi-test-CAPS#0.1.0'',
         Dir [(''package'', Dir [(''package.json'', File ''{id: old-build}'')])]),
      (''sushi-test#current'',
         Dir [(''package'', Dir [(''package.json'', File ''{id: old-build}'')])]),
      (''sushi-test-no-package#current'', Dir noPackageFolder)]"

definition cachedWorld :: world where
  "cachedWorld = emptyWorld
     \<lparr>fsAt := (\<lambda>p. if p = ''cache'' then Some (Dir cachedPackages) else None)\<rparr>"

definition oldBuild :: LoadedPackage where
  "oldBuild = \<lparr>package = ''hl7.fhir.r5.core#current'',
               defs = [JObj [(''id'', JStr ''old-build'')]],
               packageJson = Some (JObj [(''id'', JStr ''old-build'')])\<rparr>"

definition memoWorld :: world where
  "memoWorld = cachedWorld\<lparr>cache := (\<lambda>k. if k = ''hl7.fhir.r5.core#current'' then Some oldBuild else None)\<rparr>"


text \<open>The requested version in the words of the spec: the text after the last separator
  of the lookup string.\<close>

definition lastSeparatorVersion :: "string \<Rightarrow> string" where
  "lastSeparatorVersion item = rev (takeWhile (\<lambda>c. c \<noteq> CHR ''|'') (rev item))"

text \<open>The stores of the tests of \<^verbatim>\<open>fishForFHIR\<close>: a profile whose version holds the
  separator, and the tree in which \<^verbatim>\<open>package2\<close>, a child, and \<^verbatim>\<open>package3\<close>, a grandchild
  under \<^verbatim>\<open>package1\<close>, each define \<^verbatim>\<open>Condition\<close>.\<close>

definition simpleProfile :: json where
  "simpleProfile =
     JObj [(''resourceType'', JStr ''StructureDefinition''), (''id'', JStr ''SimpleProfile''),
           (''name'', JStr ''SimpleProfile''), (''version'', JStr ''1.0.0|a''),
           (''kind'', JStr ''resource''), (''derivation'', JStr ''constraint''),
           (''type'', JStr ''Patient'')]"

definition simpleStore :: FHIRDefinitions where
  "simpleStore = add simpleProfile new_FHIRDefinitions"

definition condition :: "string \<Rightarrow> json" where
  "condition v =
     JObj [(''resourceType'', JStr ''StructureDefinition''), (''id'', JStr ''Condition''),
           (''kind'', JStr ''resource''), (''derivation'', JStr ''specialization''),
           (''version'', JStr v)]"

definition childDefs3 :: FHIRDefinitions where
  "childDefs3 = set_package ''package3'' (add (condition ''4.0.3'') new_FHIRDefinitions)"

definition childDefs1 :: FHIRDefinitions where
  "childDefs1 = push_child childDefs3 (set_package ''package1'' new_FHIRDefinitions)"

definition childDefs2 :: FHIRDefinitions where
  "childDefs2 = set_package ''package2'' (add (condition ''4.0.2'') new_FHIRDefinitions)"

definition defsWithChildDefs :: FHIRDefinitions where
  "defsWithChildDefs = push_child childDefs2 (push_child childDefs1 new_FHIRDefinitions)"

text \<open>What \<^verbatim>\<open>loadFromPath\<close> reads from two of the cached directories.\<close>

definition capsPackage :: LoadedPackage where
  "capsPackage = \<lparr>package = ''sushi-test-caps#0.1.0'',
                  defs = [JObj [(''id'', JStr ''old-build'')]],
                  packageJson = Some (JObj [(''id'', JStr ''old-build'')])\<rparr>"

definition currentPackage :: LoadedPackage where
  "currentPackage = \<lparr>package = ''sushi-test#current'',
                     defs = [JObj [(''id'', JStr ''old-build'')]],
                     packageJson = Some (JObj [(''id'', JStr ''old-build'')])\<rparr>"

section \<open>The claims\<close>

subsection \<open>Helper facts\<close>






lemma put_entry_fresh: "map_of es k = None \<Longrightarrow> put_entry k v es = es @ [(k, v)]"
  by (induction es) (auto split: if_splits)

lemma map_of_put_entry: "map_of (put_entry k v es) k' = (if k' = k then Some v else map_of es k')"
  by (induction es) auto

lemma map_of_remove_entry: "map_of (remove_entry k es) k' = (if k' = k then None else map_of es k')"
  by (induction es) (auto simp: remove_entry_def)

lemma put_entry_twice: "put_entry k v (put_entry k v' es) = put_entry k v es"
  by (induction es) auto

lemma filter_put_entry:
  "P k \<Longrightarrow> map_of es k \<noteq> None \<Longrightarrow>
   filter (\<lambda>e. P (fst e)) (put_entry k v es) = put_entry k v (filter (\<lambda>e. P (fst e)) es)"
  by (induction es) auto

lemma renameIntoPackage_fresh:
  assumes "map_of es f = Some n" "map_of es ''package'' = Some (Dir pc)" "map_of pc f = None"
  shows "renameIntoPackage f es = Inr (put_entry ''package'' (Dir (pc @ [(f, n)])) (remove_entry f es))"
  using assms by (simp add: renameIntoPackage_def put_entry_fresh)

lemma renameAll_fresh:
  assumes "distinct fs" "''package'' \<notin> set fs"
    "\<forall>f\<in>set fs. map_of es f \<noteq> None \<and> map_of pc f = None"
    "map_of es ''package'' = Some (Dir pc)"
  shows "renameAll fs es =
     Inr (put_entry ''package'' (Dir (pc @ map (\<lambda>f. (f, the (map_of es f))) fs))
            (filter (\<lambda>e. fst e \<notin> set fs) es))"
  using assms
proof (induction fs arbitrary: es pc)
  case Nil
  have "put_entry ''package'' (Dir pc) es = es"
    using Nil.prems(4) by (induction es) (auto split: if_splits)
  then show ?case by simp
next
  case (Cons f fs)
  obtain n where n: "map_of es f = Some n"
    using Cons.prems(3) by auto
  define es1 where "es1 = put_entry ''package'' (Dir (pc @ [(f, n)])) (remove_entry f es)"
  have fp: "f \<noteq> ''package''" using Cons.prems(2) by auto
  have step: "renameIntoPackage f es = Inr es1"
    using renameIntoPackage_fresh[OF n Cons.prems(4)] Cons.prems(3) by (simp add: es1_def)
  have pk1: "map_of es1 ''package'' = Some (Dir (pc @ [(f, n)]))"
    by (simp add: es1_def map_of_put_entry)
  have same: "\<And>g. g \<in> set fs \<Longrightarrow> map_of es1 g = map_of es g"
    using Cons.prems(1,2) by (auto simp: es1_def map_of_put_entry map_of_remove_entry)
  have pre: "\<forall>g\<in>set fs. map_of es1 g \<noteq> None \<and> map_of (pc @ [(f, n)]) g = None"
    using Cons.prems(1,3) same by auto
  have ih: "renameAll fs es1 =
     Inr (put_entry ''package'' (Dir ((pc @ [(f, n)]) @ map (\<lambda>g. (g, the (map_of es1 g))) fs))
            (filter (\<lambda>e. fst e \<notin> set fs) es1))"
    using Cons.IH[of es1 "pc @ [(f, n)]"] Cons.prems(1,2) pre pk1 by simp
  have m: "map (\<lambda>g. (g, the (map_of es1 g))) fs = map (\<lambda>g. (g, the (map_of es g))) fs"
    using same by simp
  have rp: "map_of (remove_entry f es) ''package'' \<noteq> None"
    using fp Cons.prems(4) by (simp add: map_of_remove_entry)
  have fl: "filter (\<lambda>e. fst e \<notin> set fs) es1 =
      put_entry ''package'' (Dir (pc @ [(f, n)])) (filter (\<lambda>e. fst e \<notin> set (f # fs)) es)"
  proof -
    have "filter (\<lambda>e. fst e \<notin> set fs) es1 =
        put_entry ''package'' (Dir (pc @ [(f, n)])) (filter (\<lambda>e. fst e \<notin> set fs) (remove_entry f es))"
      unfolding es1_def using filter_put_entry[of "\<lambda>k. k \<notin> set fs" "''package''" "remove_entry f es"]
        Cons.prems(2) rp by simp
    moreover have "filter (\<lambda>e. fst e \<notin> set fs) (remove_entry f es) = filter (\<lambda>e. fst e \<notin> set (f # fs)) es"
      by (induction es) (auto simp: remove_entry_def)
    ultimately show ?thesis by simp
  qed
  show ?case
    using step ih n by (simp add: m fl put_entry_twice)
qed

lemma lookup_all:
  "\<forall>e\<in>set xs. map_of es (fst e) = Some (snd e) \<Longrightarrow>
   map (\<lambda>f. (f, the (map_of es f))) (filter P (map fst xs)) = filter (\<lambda>e. P (fst e)) xs"
  by (induction xs) auto

lemma only_entry:
  "distinct (map fst es) \<Longrightarrow> map_of es k = Some v \<Longrightarrow> filter (\<lambda>e. fst e = k) es = [(k, v)]"
proof (induction es)
  case Nil
  then show ?case by simp
next
  case (Cons e es)
  show ?case
  proof (cases "fst e = k")
    case True
    then have "k \<notin> fst ` set es"
      using Cons.prems(1) by auto
    then have "filter (\<lambda>e. fst e = k) es = []"
      unfolding filter_empty_conv by (metis imageI)
    then show ?thesis using True Cons.prems(2) by (cases e) auto
  next
    case False
    then show ?thesis using Cons by auto
  qed
qed

lemma toLowerCase_idem: "toLowerCase (toLowerCase s) = toLowerCase s"
  by (induction s) (simp_all add: toLowerCase_def)

lemma find_first:
  "\<forall>e\<in>set pre. \<not> P e \<Longrightarrow> P x \<Longrightarrow> find P (pre @ x # post) = Some x"
  by (induction pre) simp_all

lemma find_none: "\<forall>e\<in>set es. \<not> P e \<Longrightarrow> find P es = None"
  by (induction es) simp_all

lemma readDefs_parsed:
  "\<forall>(file, content, def)\<in>set parsed. JSON_parse env content = Some def \<Longrightarrow>
   readDefs env (map (\<lambda>(file, content, def). (file, File content)) parsed @ rest) r =
     readDefs env rest
       (r\<lparr>defs := defs r @ map (\<lambda>(file, content, def). def) parsed,
          packageJson :=
            (case map_of (rev (map (\<lambda>(file, content, def). (file, def)) parsed)) ''package.json'' of
               None \<Rightarrow> packageJson r
             | Some def \<Rightarrow> Some def)\<rparr>)"
proof (induction parsed arbitrary: r)
  case Nil
  then show ?case by simp
next
  case (Cons x parsed)
  obtain name content j where x: "x = (name, content, j)"
    by (cases x)
  have p: "JSON_parse env content = Some j"
    using Cons.prems x by simp
  have rest: "\<forall>(file, content, def)\<in>set parsed. JSON_parse env content = Some def"
    using Cons.prems by simp
  show ?case
    using p x
    by (simp add: Cons.IH[OF rest] map_add_def split: option.splits)
qed












lemma firstSome_Some: "firstSome f xs = Some y \<Longrightarrow> \<exists>x\<in>set xs. f x = Some y"
  by (induction xs) (auto split: option.splits)

lemma fishLocal_Some:
  assumes "fishLocal d base version types = Some x"
  shows "\<exists>e\<in>set (ownDefinitions d). defn e = x \<and> versionOk version e \<and>
           typeCategory e \<in> set types \<and>
           (strField ''id'' x = Some base \<or> strField ''name'' x = Some base \<or>
            strField ''url'' x = Some base)"
proof -
  obtain e where e: "firstSome (\<lambda>t. firstSome (hit (ownDefinitions d) base version t)
                          [''id'', ''name'', ''url'']) types = Some e" "defn e = x"
    using assms by (auto simp: fishLocal_def)
  obtain t where t: "t \<in> set types"
    "firstSome (hit (ownDefinitions d) base version t) [''id'', ''name'', ''url''] = Some e"
    using firstSome_Some[OF e(1)] by blast
  obtain key where k: "key \<in> set [''id'', ''name'', ''url'']"
    "hit (ownDefinitions d) base version t key = Some e"
    using firstSome_Some[OF t(2)] by blast
  have "e \<in> set (ownDefinitions d)" "strField key (defn e) = Some base" "typeCategory e = t"
    "versionOk version e"
    using k(2) by (auto simp: hit_def find_Some_iff)
  then show ?thesis using e(2) t(1) k(1) by auto
qed

lemma fishQueue_Some:
  "fishQueue q base version types = Some x \<Longrightarrow>
     \<exists>e. defn e = x \<and> versionOk version e \<and> typeCategory e \<in> set types \<and>
         (strField ''id'' x = Some base \<or> strField ''name'' x = Some base \<or>
          strField ''url'' x = Some base)"
proof (induction q base version types rule: fishQueue.induct)
  case (1 base version types)
  then show ?case by simp
next
  case (2 d queue base version types)
  show ?case
  proof (cases "fishLocal d base version types")
    case None
    then show ?thesis using 2 by simp
  next
    case (Some y)
    then have "y = x" using "2.prems" by simp
    then show ?thesis using fishLocal_Some[of d base version types x] Some by blast
  qed
qed

lemma splitVersion_first:
  "CHR ''|'' \<notin> set base \<Longrightarrow> splitVersion (base @ CHR ''|'' # ver) = (base, Some ver)"
proof -
  assume a: "CHR ''|'' \<notin> set base"
  then have "dropWhile (\<lambda>c. c \<noteq> CHR ''|'') (base @ CHR ''|'' # ver) = CHR ''|'' # ver"
    by (induction base) auto
  moreover have "takeWhile (\<lambda>c. c \<noteq> CHR ''|'') (base @ CHR ''|'' # ver) = base"
    using a by (induction base) auto
  ultimately show ?thesis by (simp add: splitVersion_def)
qed

lemma fishQueue_first_match:
  "i < length cs \<Longrightarrow> \<forall>j<i. fishLocal (cs ! j) base version types = None \<Longrightarrow>
   fishLocal (cs ! i) base version types = Some x \<Longrightarrow>
   fishQueue (cs @ q) base version types = Some x"
proof (induction cs arbitrary: i q)
  case Nil
  then show ?case by simp
next
  case (Cons c cs)
  show ?case
  proof (cases i)
    case 0
    then show ?thesis using Cons.prems by simp
  next
    case (Suc k)
    have c: "fishLocal c base version types = None"
      using Cons.prems(2) Suc by auto
    have "\<forall>j<k. fishLocal (cs ! j) base version types = None"
      using Cons.prems(2) Suc by auto
    then have "fishQueue (cs @ (q @ childFHIRDefs c)) base version types = Some x"
      using Cons.IH[of k "q @ childFHIRDefs c"] Cons.prems Suc by simp
    then show ?thesis using c by simp
  qed
qed

lemma loadFromPath_logMsg:
  "loadFromPath env cachePath key (logMsg level message w) =
     (case loadFromPath env cachePath key w of (r, w') \<Rightarrow> (r, logMsg level message w'))"
  by (simp add: loadFromPath_def PackageCache_get_def PackageCache_contains_def
        PackageCache_put_def logMsg_def split: option.splits sum.splits prod.splits)

lemma loadFromPath_frame:
  "loadFromPath env cachePath key w = (r, w') \<Longrightarrow>
     calls w' = calls w \<and> lastCurrentUpdate w' = lastCurrentUpdate w \<and> ticks w' = ticks w \<and>
     logs w' = logs w \<and> fsAt w' = fsAt w"
  by (auto simp: loadFromPath_def PackageCache_get_def PackageCache_contains_def
        PackageCache_put_def split: option.splits sum.splits prod.splits if_splits)

lemma loadFromPath_memo:
  "cache w key = Some p \<Longrightarrow> loadFromPath env cachePath key w = (Inr (Some (Package p)), w)"
  by (simp add: loadFromPath_def PackageCache_get_def PackageCache_contains_def)

lemma loadFromPath_fresh:
  "cache w targetPackage = None \<Longrightarrow> targetPackage \<notin> set objectPrototypeKeys \<Longrightarrow>
   loadFromPath env cachePath targetPackage w =
     (case listCache (fsAt w cachePath) of
        Inl e \<Rightarrow> (Inl e, w)
      | Inr packages \<Rightarrow>
         (case find (\<lambda>e. toLowerCase (fst e) = targetPackage) packages of
            None \<Rightarrow> (Inr None, w)
          | Some (cachedPackage, n) \<Rightarrow>
             if cachedPackage = [] then (Inr None, w)
             else
              (case packageFiles n of
                 Inl e \<Rightarrow> (Inl e, w)
               | Inr files \<Rightarrow>
                  (case readDefs env (filter (\<lambda>f. endsWith ''.json'' (fst f)) files)
                          \<lparr>package = targetPackage, defs = [], packageJson = None\<rparr> of
                     Inl e \<Rightarrow> (Inl e, w)
                   | Inr result \<Rightarrow>
                       (Inr (Some (Package result)),
                        w\<lparr>cache := (cache w)(targetPackage \<mapsto> result)\<rparr>)))))"
  unfolding loadFromPath_def PackageCache_put_def
  by (simp add: PackageCache_contains_def PackageCache_get_def)

lemma refreshNeeded_frame:
  "lastCurrentUpdate w' = lastCurrentUpdate w \<Longrightarrow> ticks w' = ticks w \<Longrightarrow>
     fst (isCurrentPackageRefreshNeeded env w') = fst (isCurrentPackageRefreshNeeded env w)"
  by (simp add: isCurrentPackageRefreshNeeded_def newDate_def split: option.splits)

lemma refreshNeeded_calls:
  "calls (snd (isCurrentPackageRefreshNeeded env w)) = calls w"
  by (simp add: isCurrentPackageRefreshNeeded_def newDate_def split: option.splits)

lemma choosePackageUrl_loaded:
  assumes "\<not> (startsWith ''hl7.fhir.r5.'' packageName \<and> version = ''current'')"
    and "isCurrentVersion version \<longrightarrow> \<not> fst (isCurrentPackageRefreshNeeded env w)"
  shows "choosePackageUrl env packageName version key loadKey cachePath (Some (Package pkg)) w =
    (Inr None, if isCurrentVersion version then snd (isCurrentPackageRefreshNeeded env w) else w)"
proof (cases "isCurrentVersion version")
  case True
  obtain b wn where n: "isCurrentPackageRefreshNeeded env w = (b, wn)"
    by (cases "isCurrentPackageRefreshNeeded env w")
  then have "\<not> b" using assms(2) True by simp
  then show ?thesis
    using assms(1) True n by (simp add: choosePackageUrl_def currentPackageUrl_def)
next
  case False
  then show ?thesis
    using assms(1) by (simp add: choosePackageUrl_def)
qed

lemma checkManifest_frame:
  "checkManifest env cachePath loadKey fullPackageName igUrl w = (r, w') \<Longrightarrow>
     cache w' = cache w \<and> fsAt w' = fsAt w"
  by (auto simp: checkManifest_def Let_def logMsg_def axiosGet_def
        split: response.splits sum.splits if_splits prod.splits)

lemma currentPackageUrl_frame:
  "currentPackageUrl env packageName version fullPackageName loadKey cachePath w = (r, w') \<Longrightarrow>
     cache w' = cache w \<and> fsAt w' = fsAt w"
  by (auto simp: currentPackageUrl_def isCurrentPackageRefreshNeeded_def
        markCurrentPackageRefreshed_def newDate_def Let_def axiosGet_def
        split: response.splits option.splits if_splits prod.splits
        dest!: checkManifest_frame)

lemma getDistUrl_frame:
  "getDistUrl env registry packageName version w = (r, w') \<Longrightarrow>
     cache w' = cache w \<and> fsAt w' = fsAt w"
  by (auto simp: getDistUrl_def Let_def axiosGet_def split: response.splits option.splits if_splits)

lemma choosePackageUrl_frame:
  "choosePackageUrl env packageName version fullPackageName loadKey cachePath loaded w = (r, w') \<Longrightarrow>
     cache w' = cache w \<and> fsAt w' = fsAt w"
  by (auto simp: choosePackageUrl_def logMsg_def
        split: if_splits option.splits prod.splits sum.splits
        dest!: currentPackageUrl_frame getDistUrl_frame)

lemma doDownload_memo:
  assumes "cache w key = Some old"
    and "doDownload env cachePath key (Some (Package old)) url w = (r, w')"
  shows "cache w' key = Some old \<and> (r = Inr (Some (Package old)) \<or> (\<exists>e. r = Inl e))"
  using assms
  by (auto simp: doDownload_def Let_def logMsg_def axiosGet_def loadFromPath_def
        PackageCache_get_def PackageCache_contains_def PackageCache_put_def
        split: response.splits option.splits archive.splits sum.splits)

lemma downloadPackage_memo:
  assumes "cache w key = Some old"
    and "downloadPackage env packageName version key cachePath (Some (Package old)) packageUrl w = (r, w')"
  shows "cache w' key = Some old \<and> (r = Inr (Some (Package old)) \<or> (\<exists>e. r = Inl e))"
proof (cases packageUrl)
  case None
  then show ?thesis using assms by (simp add: downloadPackage_def)
next
  case (Some url)
  show ?thesis
  proof (cases "url = []")
    case True
    then show ?thesis using assms Some by (simp add: downloadPackage_def)
  next
    case False
    obtain r1 w1 where d1: "doDownload env cachePath key (Some (Package old)) url w = (r1, w1)"
      by (cases "doDownload env cachePath key (Some (Package old)) url w")
    note m1 = doDownload_memo[OF assms(1) d1]
    show ?thesis
    proof (cases r1)
      case (Inr l)
      then show ?thesis using assms(2) Some False d1 m1 by (simp add: downloadPackage_def)
    next
      case (Inl e)
      let ?url2 = "''https://packages2.fhir.org/packages/'' @ packageName @ ''/'' @ version"
      obtain r2 w2 where d2: "doDownload env cachePath key (Some (Package old)) ?url2 w1 = (r2, w2)"
        by (cases "doDownload env cachePath key (Some (Package old)) ?url2 w1")
      note m2 = doDownload_memo[OF conjunct1[OF m1] d2]
      show ?thesis
        using assms(2) Some False d1 Inl d2 m1 m2
        by (cases r2) (auto simp: downloadPackage_def split: if_splits)
    qed
  qed
qed

lemma mergeDependency_memoized:
  assumes "version \<noteq> ''latest''" and "\<not> isPatchWildcard version" and "\<not> isMinorWildcard version"
    and "cache w (packageName @ ''#'' @ version) = Some old"
  shows "cache (snd (mergeDependency env packageName version FHIRDefs cachePath w))
           (packageName @ ''#'' @ version) = Some old \<and>
         (\<forall>s. fst (mergeDependency env packageName version FHIRDefs cachePath w) = Inr s \<longrightarrow>
              s = merge old FHIRDefs)"
proof -
  let ?key = "packageName @ CHR ''#'' # version"
  let ?w3 = "logMsg ''info'' (''Found '' @ ?key @ '' in '' @ cachePath @ ''.'')
               (logMsg ''info'' (''Checking '' @ cachePath @ '' for '' @ ?key @ ''...'') w)"
  have c: "cache w ?key = Some old"
    using assms(4) by simp
  have rv: "resolveVersion env packageName version w = (Inr version, w)"
    using assms(1,2,3) by (simp add: resolveVersion_def)
  have l1: "\<And>m. loadFromPath env cachePath ?key (logMsg ''info'' m w) =
      (Inr (Some (Package old)), logMsg ''info'' m w)"
    using c by (simp add: loadFromPath_memo logMsg_def)
  have df: "\<And>w3. devFallback env packageName version ?key cachePath (Some (Package old)) w3 =
      (Inr (version, ?key, Some (Package old)), w3)"
    by (simp add: devFallback_def)
  obtain r5 w5 where cu:
    "choosePackageUrl env packageName version ?key ?key cachePath (Some (Package old)) ?w3 = (r5, w5)"
    by (cases "choosePackageUrl env packageName version ?key ?key cachePath (Some (Package old)) ?w3")
  have c5: "cache w5 ?key = Some old"
    using choosePackageUrl_frame[OF cu] c by (simp add: logMsg_def)
  show ?thesis
  proof (cases r5)
    case (Inl e)
    then show ?thesis
      using cu c5 by (simp add: mergeDependency_def rv l1 df Let_def)
  next
    case (Inr packageUrl)
    obtain r6 w6 where dl:
      "downloadPackage env packageName version ?key cachePath (Some (Package old)) packageUrl w5 = (r6, w6)"
      by (cases "downloadPackage env packageName version ?key cachePath (Some (Package old)) packageUrl w5")
    note m = downloadPackage_memo[OF c5 dl]
    have cl: "\<And>m u. cache (logMsg ''info'' m u) = cache u"
      by (simp add: logMsg_def)
    from m show ?thesis
      using cu Inr dl by (auto simp: mergeDependency_def rv l1 df Let_def cl)
  qed
qed

lemma current_not_symbolic:
  "''current'' \<noteq> ''latest''" "\<not> isPatchWildcard ''current''" "\<not> isMinorWildcard ''current''"
  by (simp_all add: isPatchWildcard_def isMinorWildcard_def)

lemma mergeDependency_redownload_keeps_memo:
  assumes "startsWith ''hl7.fhir.r5.'' packageName"
    and "cache w (packageName @ ''#current'') = Some old"
    and "tarballAt env (''https://build.fhir.org/'' @ packageName @ ''.tgz'') =
           Response (Some (Extracts tree))"
    and "cleanCachedPackage tree = Inr cleaned"
    and "listCache (fsAt w cachePath) = Inr es"
  shows "fst (mergeDependency env packageName ''current'' FHIRDefs cachePath w) =
           Inr (merge old FHIRDefs) \<and>
         fsAt (snd (mergeDependency env packageName ''current'' FHIRDefs cachePath w)) cachePath =
           Some (Dir (remove_entry (packageName @ ''#current'') es @
                      [(packageName @ ''#current'', Dir cleaned)])) \<and>
         calls (snd (mergeDependency env packageName ''current'' FHIRDefs cachePath w)) =
           calls w @ [''https://build.fhir.org/'' @ packageName @ ''.tgz'']"
proof -
  let ?key = "packageName @ ''#current''"
  have rv: "resolveVersion env packageName ''current'' w = (Inr ''current'', w)"
    by (simp add: resolveVersion_def current_not_symbolic)
  have l1: "\<And>u. cache u = cache w \<Longrightarrow>
      loadFromPath env cachePath ?key u = (Inr (Some (Package old)), u)"
    using assms(2) by (simp add: loadFromPath_memo)
  have df: "\<And>w3. devFallback env packageName ''current'' ?key cachePath (Some (Package old)) w3 =
      (Inr (''current'', ?key, Some (Package old)), w3)"
    by (simp add: devFallback_def)
  show ?thesis
    using assms
    by (simp add: mergeDependency_def rv l1 df choosePackageUrl_def downloadPackage_def
          doDownload_def Let_def logMsg_def axiosGet_def)
qed

subsection \<open>The refresh predicate\<close>

text \<open>
  C3 (the code departs from it): the claim is that the listing is due for a refresh exactly
  when none has happened yet or more than 24 hours have passed since the last one. The
  predicate subtracts the current time from the time of the last refresh, so the
  difference is never positive once a refresh has happened: with the last refresh at time
  0 and the clock at 86400001 milliseconds, one millisecond past the 24 hours, the
  predicate is false and the listing is not queried.
\<close>

theorem refresh_not_needed_a_day_later:
  "fst (isCurrentPackageRefreshNeeded (offlineEnv\<lparr>clock := (\<lambda>n. 86400001)\<rparr>)
          (emptyWorld\<lparr>lastCurrentUpdate := Some 0\<rparr>)) = False"
  by (simp add: isCurrentPackageRefreshNeeded_def newDate_def offlineEnv_def emptyWorld_def)

subsection \<open>loadDependencies\<close>



text \<open>
  C10: on the empty list of requests \<^verbatim>\<open>Promise.all\<close> resolves to the empty array, whose
  element 0 is \<^verbatim>\<open>undefined\<close>: \<^verbatim>\<open>loadDependencies\<close> resolves to no store at all, not to an
  empty aggregator, and touches nothing.
\<close>

theorem loadDependencies_empty_undefined:
  "loadDependencies md message logf [] cachePath w = (Inr None, w)"
  by (simp add: loadDependencies_def nth_opt_def)

subsection \<open>cleanCachedPackage\<close>

text \<open>
  C2 (as the code has it): the claim has the two cases the other way round. Without a
  \<^verbatim>\<open>package\<close> entry \<^verbatim>\<open>cleanCachedPackage\<close> leaves the directory as it is and creates
  nothing. With a \<^verbatim>\<open>package\<close> folder, every other top-level entry is moved into it under
  its own name, with what it contains, after the entries the folder already had, and
  \<^verbatim>\<open>package\<close> is the one top-level entry left; this for a directory whose other entries
  do not meet an entry of the same name inside \<^verbatim>\<open>package\<close>.
\<close>

theorem cleanCachedPackage_nests:
  "(map_of es ''package'' = None \<longrightarrow> cleanCachedPackage es = Inr es) \<and>
   (distinct (map fst es) \<and> map_of es ''package'' = Some (Dir ps) \<and>
    (\<forall>f\<in>set (map fst es). f \<noteq> ''package'' \<longrightarrow> map_of ps f = None) \<longrightarrow>
      cleanCachedPackage es =
        Inr [(''package'', Dir (ps @ filter (\<lambda>e. fst e \<noteq> ''package'') es))])"
proof (intro conjI impI)
  assume "map_of es ''package'' = None"
  then show "cleanCachedPackage es = Inr es"
    by (simp add: cleanCachedPackage_def)
next
  assume a: "distinct (map fst es) \<and> map_of es ''package'' = Some (Dir ps) \<and>
    (\<forall>f\<in>set (map fst es). f \<noteq> ''package'' \<longrightarrow> map_of ps f = None)"
  let ?fs = "filter (\<lambda>file. file \<noteq> ''package'') (map fst es)"
  have all: "\<forall>e\<in>set es. map_of es (fst e) = Some (snd e)"
    using a by auto
  have pre: "\<forall>f\<in>set ?fs. map_of es f \<noteq> None \<and> map_of ps f = None"
    using a all by (auto simp: weak_map_of_SomeI)
  have r: "renameAll ?fs es =
     Inr (put_entry ''package'' (Dir (ps @ map (\<lambda>f. (f, the (map_of es f))) ?fs))
            (filter (\<lambda>e. fst e \<notin> set ?fs) es))"
    using renameAll_fresh[of ?fs es ps] a pre by (simp add: distinct_map_filter)
  have f1: "filter (\<lambda>e. fst e \<notin> set ?fs) es = filter (\<lambda>e. fst e = ''package'') es"
    by (rule filter_cong) auto
  have f2: "map (\<lambda>f. (f, the (map_of es f))) ?fs = filter (\<lambda>e. fst e \<noteq> ''package'') es"
    using lookup_all[OF all, of "\<lambda>f. f \<noteq> ''package''"] by simp
  have "cleanCachedPackage es = renameAll ?fs es"
    using a by (simp add: cleanCachedPackage_def)
  also have "\<dots> = Inr (put_entry ''package'' (Dir (ps @ filter (\<lambda>e. fst e \<noteq> ''package'') es))
            (filter (\<lambda>e. fst e = ''package'') es))"
    by (simp only: r f1 f2)
  also have "\<dots> = Inr [(''package'', Dir (ps @ filter (\<lambda>e. fst e \<noteq> ''package'') es))]"
    using only_entry[of es "''package''" "Dir ps"] a by simp
  finally show "cleanCachedPackage es =
        Inr [(''package'', Dir (ps @ filter (\<lambda>e. fst e \<noteq> ''package'') es))]" .
qed

theorem cleanCachedPackage_nests_witness:
  "map_of noPackageFolder ''package'' = None \<and>
   cleanCachedPackage noPackageFolder = Inr noPackageFolder \<and>
   distinct (map fst wrongFormatPackage) \<and>
   map_of wrongFormatPackage ''package'' = Some (Dir [(''package.json'', File ''{}'')]) \<and>
   cleanCachedPackage wrongFormatPackage =
     Inr [(''package'',
           Dir [(''package.json'', File ''{}''),
                (''other'', Dir [(''x.json'', File ''{}'')]),
                (''StructureDefinition-MyPatient.json'', File ''{}'')])]"
proof -
  have h1: "map_of noPackageFolder ''package'' = None"
    by (simp add: noPackageFolder_def)
  have h2: "distinct (map fst wrongFormatPackage) \<and>
      map_of wrongFormatPackage ''package'' = Some (Dir [(''package.json'', File ''{}'')]) \<and>
      (\<forall>f\<in>set (map fst wrongFormatPackage).
          f \<noteq> ''package'' \<longrightarrow> map_of [(''package.json'', File ''{}'')] f = None)"
    by (simp add: wrongFormatPackage_def)
  note t1 = mp[OF cleanCachedPackage_nests[of noPackageFolder, THEN conjunct1] h1]
  note t2 = mp[OF cleanCachedPackage_nests
                 [of wrongFormatPackage "[(''package.json'', File ''{}'')]", THEN conjunct2] h2]
  show ?thesis
    using h1 h2 t1 t2 by (simp add: wrongFormatPackage_def)
qed

text \<open>The claim fails both ways: with a \<^verbatim>\<open>package\<close> folder the directory does change, and
  without one nothing is moved and no \<^verbatim>\<open>package\<close> folder appears.\<close>

theorem cleanCachedPackage_claim_counterexample:
  "map_of wrongFormatPackage ''package'' \<noteq> None \<and>
   cleanCachedPackage wrongFormatPackage \<noteq> Inr wrongFormatPackage \<and>
   map_of noPackageFolder ''package'' = None \<and>
   cleanCachedPackage noPackageFolder = Inr noPackageFolder"
  by (simp add: cleanCachedPackage_def renameIntoPackage_def remove_entry_def
        wrongFormatPackage_def noPackageFolder_def)

subsection \<open>loadFromPath\<close>

text \<open>
  C8 (as the code has it): a memoized key returns its record. A key that is not memoized and
  is not the name of a property every object inherits is matched against the names of the
  entries of the cache root, files and directories alike:
  \<^item> a cache root that does not exist gives null, and one that is a file gives the error of
    listing it;
  \<^item> when no entry name equals the key up to letter case the result is null, nothing
    memoized;
  \<^item> when the key is in lower case and not empty and some entry name equals it up to letter
    case, the result is never null, and it is the outcome of reading the first such entry:
    the error of listing its \<^verbatim>\<open>package\<close> folder when the entry is a file, has no such folder
    or has a file of that name; otherwise the package labelled with the key that holds the
    parsed contents of the \<^verbatim>\<open>.json\<close> files of that folder in the order listed, with the
    last of them named \<^verbatim>\<open>package.json\<close> as metadata, memoized under the key, when each
    of these files parses; otherwise the error of the first of them that is a directory or
    does not parse. An error memoizes nothing.
\<close>

theorem loadFromPath_case_insensitive:
  "(cache w targetPackage = Some p \<longrightarrow>
      loadFromPath env cachePath targetPackage w = (Inr (Some (Package p)), w)) \<and>
   (cache w targetPackage = None \<and> targetPackage \<notin> set objectPrototypeKeys \<and>
    fsAt w cachePath = None \<longrightarrow>
      loadFromPath env cachePath targetPackage w = (Inr None, w)) \<and>
   (cache w targetPackage = None \<and> targetPackage \<notin> set objectPrototypeKeys \<and>
    fsAt w cachePath = Some (File t) \<longrightarrow>
      loadFromPath env cachePath targetPackage w = (Inl (SystemError ''ENOTDIR''), w)) \<and>
   (cache w targetPackage = None \<and> targetPackage \<notin> set objectPrototypeKeys \<and>
    fsAt w cachePath = Some (Dir es) \<and>
    (\<forall>e\<in>set es. toLowerCase (fst e) \<noteq> toLowerCase targetPackage) \<longrightarrow>
      loadFromPath env cachePath targetPackage w = (Inr None, w)) \<and>
   (cache w targetPackage = None \<and> targetPackage \<notin> set objectPrototypeKeys \<and>
    targetPackage \<noteq> [] \<and> toLowerCase targetPackage = targetPackage \<and>
    fsAt w cachePath = Some (Dir (pre @ (cachedPackage, n) # post)) \<and>
    (\<forall>e\<in>set pre. toLowerCase (fst e) \<noteq> toLowerCase targetPackage) \<and>
    toLowerCase cachedPackage = toLowerCase targetPackage \<longrightarrow>
      fst (loadFromPath env cachePath targetPackage w) \<noteq> Inr None \<and>
      (case n of
         File _ \<Rightarrow>
           loadFromPath env cachePath targetPackage w = (Inl (SystemError ''ENOTDIR''), w)
       | Dir ds \<Rightarrow>
          (case map_of ds ''package'' of
             None \<Rightarrow>
               loadFromPath env cachePath targetPackage w = (Inl (SystemError ''ENOENT''), w)
           | Some (File _) \<Rightarrow>
               loadFromPath env cachePath targetPackage w = (Inl (SystemError ''ENOTDIR''), w)
           | Some (Dir files) \<Rightarrow>
              (filter (\<lambda>f. endsWith ''.json'' (fst f)) files =
                 map (\<lambda>(file, content, def). (file, File content)) parsed \<and>
               (\<forall>(file, content, def)\<in>set parsed. JSON_parse env content = Some def) \<longrightarrow>
                 loadFromPath env cachePath targetPackage w =
                   (Inr (Some (Package
                      \<lparr>package = targetPackage,
                       defs = map (\<lambda>(file, content, def). def) parsed,
                       packageJson =
                         map_of (rev (map (\<lambda>(file, content, def). (file, def)) parsed))
                           ''package.json''\<rparr>)),
                    w\<lparr>cache := (cache w)(targetPackage \<mapsto>
                      \<lparr>package = targetPackage,
                       defs = map (\<lambda>(file, content, def). def) parsed,
                       packageJson =
                         map_of (rev (map (\<lambda>(file, content, def). (file, def)) parsed))
                           ''package.json''\<rparr>)\<rparr>)) \<and>
              (filter (\<lambda>f. endsWith ''.json'' (fst f)) files =
                 map (\<lambda>(file, content, def). (file, File content)) parsed @ (bad, b) # rest \<and>
               (\<forall>(file, content, def)\<in>set parsed. JSON_parse env content = Some def) \<and>
               (case b of Dir _ \<Rightarrow> True | File content \<Rightarrow> JSON_parse env content = None) \<longrightarrow>
                 loadFromPath env cachePath targetPackage w =
                   (Inl (case b of Dir _ \<Rightarrow> SystemError ''EISDIR'' | File _ \<Rightarrow> SyntaxError),
                    w)))))"
proof (intro conjI)
  show "cache w targetPackage = Some p \<longrightarrow>
      loadFromPath env cachePath targetPackage w = (Inr (Some (Package p)), w)"
    by (simp add: loadFromPath_memo)
next
  show "cache w targetPackage = None \<and> targetPackage \<notin> set objectPrototypeKeys \<and>
    fsAt w cachePath = None \<longrightarrow>
      loadFromPath env cachePath targetPackage w = (Inr None, w)"
    by (simp add: loadFromPath_fresh listCache_def)
next
  show "cache w targetPackage = None \<and> targetPackage \<notin> set objectPrototypeKeys \<and>
    fsAt w cachePath = Some (File t) \<longrightarrow>
      loadFromPath env cachePath targetPackage w = (Inl (SystemError ''ENOTDIR''), w)"
    by (simp add: loadFromPath_fresh listCache_def)
next
  show "cache w targetPackage = None \<and> targetPackage \<notin> set objectPrototypeKeys \<and>
    fsAt w cachePath = Some (Dir es) \<and>
    (\<forall>e\<in>set es. toLowerCase (fst e) \<noteq> toLowerCase targetPackage) \<longrightarrow>
      loadFromPath env cachePath targetPackage w = (Inr None, w)"
  proof
    assume a: "cache w targetPackage = None \<and> targetPackage \<notin> set objectPrototypeKeys \<and>
      fsAt w cachePath = Some (Dir es) \<and>
      (\<forall>e\<in>set es. toLowerCase (fst e) \<noteq> toLowerCase targetPackage)"
    have "\<forall>e\<in>set es. \<not> toLowerCase (fst e) = targetPackage"
    proof
      fix e
      assume "e \<in> set es"
      then have "toLowerCase (fst e) \<noteq> toLowerCase targetPackage"
        using a by blast
      then show "\<not> toLowerCase (fst e) = targetPackage"
        using toLowerCase_idem[of "fst e"] by auto
    qed
    then have "find (\<lambda>e. toLowerCase (fst e) = targetPackage) es = None"
      by (rule find_none)
    then show "loadFromPath env cachePath targetPackage w = (Inr None, w)"
      using a by (simp add: loadFromPath_fresh listCache_def)
  qed
next
  show "cache w targetPackage = None \<and> targetPackage \<notin> set objectPrototypeKeys \<and>
    targetPackage \<noteq> [] \<and> toLowerCase targetPackage = targetPackage \<and>
    fsAt w cachePath = Some (Dir (pre @ (cachedPackage, n) # post)) \<and>
    (\<forall>e\<in>set pre. toLowerCase (fst e) \<noteq> toLowerCase targetPackage) \<and>
    toLowerCase cachedPackage = toLowerCase targetPackage \<longrightarrow>
      fst (loadFromPath env cachePath targetPackage w) \<noteq> Inr None \<and>
      (case n of
         File _ \<Rightarrow>
           loadFromPath env cachePath targetPackage w = (Inl (SystemError ''ENOTDIR''), w)
       | Dir ds \<Rightarrow>
          (case map_of ds ''package'' of
             None \<Rightarrow>
               loadFromPath env cachePath targetPackage w = (Inl (SystemError ''ENOENT''), w)
           | Some (File _) \<Rightarrow>
               loadFromPath env cachePath targetPackage w = (Inl (SystemError ''ENOTDIR''), w)
           | Some (Dir files) \<Rightarrow>
              (filter (\<lambda>f. endsWith ''.json'' (fst f)) files =
                 map (\<lambda>(file, content, def). (file, File content)) parsed \<and>
               (\<forall>(file, content, def)\<in>set parsed. JSON_parse env content = Some def) \<longrightarrow>
                 loadFromPath env cachePath targetPackage w =
                   (Inr (Some (Package
                      \<lparr>package = targetPackage,
                       defs = map (\<lambda>(file, content, def). def) parsed,
                       packageJson =
                         map_of (rev (map (\<lambda>(file, content, def). (file, def)) parsed))
                           ''package.json''\<rparr>)),
                    w\<lparr>cache := (cache w)(targetPackage \<mapsto>
                      \<lparr>package = targetPackage,
                       defs = map (\<lambda>(file, content, def). def) parsed,
                       packageJson =
                         map_of (rev (map (\<lambda>(file, content, def). (file, def)) parsed))
                           ''package.json''\<rparr>)\<rparr>)) \<and>
              (filter (\<lambda>f. endsWith ''.json'' (fst f)) files =
                 map (\<lambda>(file, content, def). (file, File content)) parsed @ (bad, b) # rest \<and>
               (\<forall>(file, content, def)\<in>set parsed. JSON_parse env content = Some def) \<and>
               (case b of Dir _ \<Rightarrow> True | File content \<Rightarrow> JSON_parse env content = None) \<longrightarrow>
                 loadFromPath env cachePath targetPackage w =
                   (Inl (case b of Dir _ \<Rightarrow> SystemError ''EISDIR'' | File _ \<Rightarrow> SyntaxError),
                    w))))"
  proof
    assume a: "cache w targetPackage = None \<and> targetPackage \<notin> set objectPrototypeKeys \<and>
      targetPackage \<noteq> [] \<and> toLowerCase targetPackage = targetPackage \<and>
      fsAt w cachePath = Some (Dir (pre @ (cachedPackage, n) # post)) \<and>
      (\<forall>e\<in>set pre. toLowerCase (fst e) \<noteq> toLowerCase targetPackage) \<and>
      toLowerCase cachedPackage = toLowerCase targetPackage"
    let ?start = "\<lparr>package = targetPackage, defs = [], packageJson = None\<rparr>"
    have fresh: "cache w targetPackage = None" "targetPackage \<notin> set objectPrototypeKeys"
      using a by simp_all
    have "\<forall>e\<in>set pre. \<not> toLowerCase (fst e) = targetPackage"
      using a by auto
    moreover have "toLowerCase (fst (cachedPackage, n)) = targetPackage"
      using a by simp
    ultimately have "find (\<lambda>e. toLowerCase (fst e) = targetPackage)
        (pre @ (cachedPackage, n) # post) = Some (cachedPackage, n)"
      by (rule find_first)
    moreover have "cachedPackage \<noteq> []"
      using a by (auto simp: toLowerCase_def)
    ultimately have found: "loadFromPath env cachePath targetPackage w =
        (case packageFiles n of
           Inl e \<Rightarrow> (Inl e, w)
         | Inr files \<Rightarrow>
            (case readDefs env (filter (\<lambda>f. endsWith ''.json'' (fst f)) files) ?start of
               Inl e \<Rightarrow> (Inl e, w)
             | Inr result \<Rightarrow>
                 (Inr (Some (Package result)), w\<lparr>cache := (cache w)(targetPackage \<mapsto> result)\<rparr>)))"
      using a by (simp add: loadFromPath_fresh[OF fresh] listCache_def)
    have notnull: "fst (loadFromPath env cachePath targetPackage w) \<noteq> Inr None"
      by (simp add: found split: sum.splits)
    have good: "loadFromPath env cachePath targetPackage w =
          (Inr (Some (Package
             \<lparr>package = targetPackage,
              defs = map (\<lambda>(file, content, def). def) parsed,
              packageJson =
                map_of (rev (map (\<lambda>(file, content, def). (file, def)) parsed))
                  ''package.json''\<rparr>)),
           w\<lparr>cache := (cache w)(targetPackage \<mapsto>
             \<lparr>package = targetPackage,
              defs = map (\<lambda>(file, content, def). def) parsed,
              packageJson =
                map_of (rev (map (\<lambda>(file, content, def). (file, def)) parsed))
                  ''package.json''\<rparr>)\<rparr>)"
      if "packageFiles n = Inr files"
        and "filter (\<lambda>f. endsWith ''.json'' (fst f)) files =
           map (\<lambda>(file, content, def). (file, File content)) parsed"
        and "\<forall>(file, content, def)\<in>set parsed. JSON_parse env content = Some def"
      for files
      using that(1,2) readDefs_parsed[OF that(3), of "[]" ?start]
      by (simp add: found split: option.splits)
    have failing: "loadFromPath env cachePath targetPackage w =
          (Inl (case b of Dir _ \<Rightarrow> SystemError ''EISDIR'' | File _ \<Rightarrow> SyntaxError), w)"
      if "packageFiles n = Inr files"
        and "filter (\<lambda>f. endsWith ''.json'' (fst f)) files =
           map (\<lambda>(file, content, def). (file, File content)) parsed @ (bad, b) # rest"
        and "\<forall>(file, content, def)\<in>set parsed. JSON_parse env content = Some def"
        and "case b of Dir _ \<Rightarrow> True | File content \<Rightarrow> JSON_parse env content = None"
      for files
      using that(1,2,4) readDefs_parsed[OF that(3), of "(bad, b) # rest" ?start]
      by (simp add: found split: node.splits)
    show "fst (loadFromPath env cachePath targetPackage w) \<noteq> Inr None \<and>
      (case n of
         File _ \<Rightarrow>
           loadFromPath env cachePath targetPackage w = (Inl (SystemError ''ENOTDIR''), w)
       | Dir ds \<Rightarrow>
          (case map_of ds ''package'' of
             None \<Rightarrow>
               loadFromPath env cachePath targetPackage w = (Inl (SystemError ''ENOENT''), w)
           | Some (File _) \<Rightarrow>
               loadFromPath env cachePath targetPackage w = (Inl (SystemError ''ENOTDIR''), w)
           | Some (Dir files) \<Rightarrow>
              (filter (\<lambda>f. endsWith ''.json'' (fst f)) files =
                 map (\<lambda>(file, content, def). (file, File content)) parsed \<and>
               (\<forall>(file, content, def)\<in>set parsed. JSON_parse env content = Some def) \<longrightarrow>
                 loadFromPath env cachePath targetPackage w =
                   (Inr (Some (Package
                      \<lparr>package = targetPackage,
                       defs = map (\<lambda>(file, content, def). def) parsed,
                       packageJson =
                         map_of (rev (map (\<lambda>(file, content, def). (file, def)) parsed))
                           ''package.json''\<rparr>)),
                    w\<lparr>cache := (cache w)(targetPackage \<mapsto>
                      \<lparr>package = targetPackage,
                       defs = map (\<lambda>(file, content, def). def) parsed,
                       packageJson =
                         map_of (rev (map (\<lambda>(file, content, def). (file, def)) parsed))
                           ''package.json''\<rparr>)\<rparr>)) \<and>
              (filter (\<lambda>f. endsWith ''.json'' (fst f)) files =
                 map (\<lambda>(file, content, def). (file, File content)) parsed @ (bad, b) # rest \<and>
               (\<forall>(file, content, def)\<in>set parsed. JSON_parse env content = Some def) \<and>
               (case b of Dir _ \<Rightarrow> True | File content \<Rightarrow> JSON_parse env content = None) \<longrightarrow>
                 loadFromPath env cachePath targetPackage w =
                   (Inl (case b of Dir _ \<Rightarrow> SystemError ''EISDIR'' | File _ \<Rightarrow> SyntaxError),
                    w))))"
    proof (intro conjI)
      show "fst (loadFromPath env cachePath targetPackage w) \<noteq> Inr None"
        by (rule notnull)
    next
      show "(case n of
         File _ \<Rightarrow>
           loadFromPath env cachePath targetPackage w = (Inl (SystemError ''ENOTDIR''), w)
       | Dir ds \<Rightarrow>
          (case map_of ds ''package'' of
             None \<Rightarrow>
               loadFromPath env cachePath targetPackage w = (Inl (SystemError ''ENOENT''), w)
           | Some (File _) \<Rightarrow>
               loadFromPath env cachePath targetPackage w = (Inl (SystemError ''ENOTDIR''), w)
           | Some (Dir files) \<Rightarrow>
              (filter (\<lambda>f. endsWith ''.json'' (fst f)) files =
                 map (\<lambda>(file, content, def). (file, File content)) parsed \<and>
               (\<forall>(file, content, def)\<in>set parsed. JSON_parse env content = Some def) \<longrightarrow>
                 loadFromPath env cachePath targetPackage w =
                   (Inr (Some (Package
                      \<lparr>package = targetPackage,
                       defs = map (\<lambda>(file, content, def). def) parsed,
                       packageJson =
                         map_of (rev (map (\<lambda>(file, content, def). (file, def)) parsed))
                           ''package.json''\<rparr>)),
                    w\<lparr>cache := (cache w)(targetPackage \<mapsto>
                      \<lparr>package = targetPackage,
                       defs = map (\<lambda>(file, content, def). def) parsed,
                       packageJson =
                         map_of (rev (map (\<lambda>(file, content, def). (file, def)) parsed))
                           ''package.json''\<rparr>)\<rparr>)) \<and>
              (filter (\<lambda>f. endsWith ''.json'' (fst f)) files =
                 map (\<lambda>(file, content, def). (file, File content)) parsed @ (bad, b) # rest \<and>
               (\<forall>(file, content, def)\<in>set parsed. JSON_parse env content = Some def) \<and>
               (case b of Dir _ \<Rightarrow> True | File content \<Rightarrow> JSON_parse env content = None) \<longrightarrow>
                 loadFromPath env cachePath targetPackage w =
                   (Inl (case b of Dir _ \<Rightarrow> SystemError ''EISDIR'' | File _ \<Rightarrow> SyntaxError),
                    w))))"
      proof (cases n)
        case (File content)
        then show ?thesis
          by (simp add: found packageFiles_def)
      next
        case (Dir ds)
        show ?thesis
        proof (cases "map_of ds ''package''")
          case None
          then show ?thesis
            using Dir by (simp add: found packageFiles_def)
        next
          case (Some m)
          show ?thesis
          proof (cases m)
            case (File content)
            then show ?thesis
              using Dir Some by (simp add: found packageFiles_def)
          next
            case inner: (Dir files)
            have pf: "packageFiles n = Inr files"
              using Dir Some inner by (simp add: packageFiles_def)
            show ?thesis
              using Dir Some inner good[OF pf] failing[OF pf] by simp
          qed
        qed
      qed
    qed
  qed
qed

theorem loadFromPath_case_insensitive_witness:
  "cache memoWorld ''hl7.fhir.r5.core#current'' = Some oldBuild \<and>
   loadFromPath buildEnv ''cache'' ''hl7.fhir.r5.core#current'' memoWorld =
     (Inr (Some (Package oldBuild)), memoWorld) \<and>
   cache cachedWorld ''sushi-test-caps#0.1.0'' = None \<and>
   ''sushi-test-caps#0.1.0'' \<notin> set objectPrototypeKeys \<and>
   fsAt cachedWorld ''elsewhere'' = None \<and>
   loadFromPath buildEnv ''elsewhere'' ''sushi-test-caps#0.1.0'' cachedWorld =
     (Inr None, cachedWorld) \<and>
   fsAt cachedWorld ''cache'' = Some (Dir cachedPackages) \<and>
   map (toLowerCase \<circ> fst) cachedPackages =
     [''hl7.fhir.r5.core#current'', ''sushi-test-caps#0.1.0'', ''sushi-test#current'',
      ''sushi-test-no-package#current''] \<and>
   cache cachedWorld ''sushi-test#0.2.0'' = None \<and>
   ''sushi-test#0.2.0'' \<notin> set objectPrototypeKeys \<and>
   loadFromPath buildEnv ''cache'' ''sushi-test#0.2.0'' cachedWorld = (Inr None, cachedWorld) \<and>
   toLowerCase ''sushi-test-caps#0.1.0'' = ''sushi-test-caps#0.1.0'' \<and>
   cachedPackages ! 1 =
     (''sushi-test-CAPS#0.1.0'',
      Dir [(''package'', Dir [(''package.json'', File ''{id: old-build}'')])]) \<and>
   JSON_parse buildEnv ''{id: old-build}'' = Some (JObj [(''id'', JStr ''old-build'')]) \<and>
   loadFromPath buildEnv ''cache'' ''sushi-test-caps#0.1.0'' cachedWorld =
     (Inr (Some (Package capsPackage)),
      cachedWorld\<lparr>cache := (cache cachedWorld)(''sushi-test-caps#0.1.0'' \<mapsto> capsPackage)\<rparr>) \<and>
   cache cachedWorld ''sushi-test-no-package#current'' = None \<and>
   cachedPackages ! 3 = (''sushi-test-no-package#current'', Dir noPackageFolder) \<and>
   map_of noPackageFolder ''package'' = None \<and>
   loadFromPath buildEnv ''cache'' ''sushi-test-no-package#current'' cachedWorld =
     (Inl (SystemError ''ENOENT''), cachedWorld) \<and>
   fsAt (emptyWorld\<lparr>fsAt := (\<lambda>p. Some (File ''text''))\<rparr>) ''cache'' = Some (File ''text'') \<and>
   loadFromPath buildEnv ''cache'' ''sushi-test#0.2.0''
       (emptyWorld\<lparr>fsAt := (\<lambda>p. Some (File ''text''))\<rparr>) =
     (Inl (SystemError ''ENOTDIR''), emptyWorld\<lparr>fsAt := (\<lambda>p. Some (File ''text''))\<rparr>) \<and>
   fsAt (emptyWorld\<lparr>fsAt := (\<lambda>p. Some (Dir [(''Broken#1.0.0'', Dir wrongFormatPackage)]))\<rparr>)
       ''cache'' = Some (Dir [(''Broken#1.0.0'', Dir wrongFormatPackage)]) \<and>
   toLowerCase ''Broken#1.0.0'' = ''broken#1.0.0'' \<and>
   map_of wrongFormatPackage ''package'' = Some (Dir [(''package.json'', File ''{}'')]) \<and>
   JSON_parse buildEnv ''{}'' = None \<and>
   loadFromPath buildEnv ''cache'' ''broken#1.0.0''
       (emptyWorld\<lparr>fsAt := (\<lambda>p. Some (Dir [(''Broken#1.0.0'', Dir wrongFormatPackage)]))\<rparr>) =
     (Inl SyntaxError,
      emptyWorld\<lparr>fsAt := (\<lambda>p. Some (Dir [(''Broken#1.0.0'', Dir wrongFormatPackage)]))\<rparr>)"
proof -
  let ?fileRoot = "emptyWorld\<lparr>fsAt := (\<lambda>p. Some (File ''text''))\<rparr>"
  let ?broken =
    "emptyWorld\<lparr>fsAt := (\<lambda>p. Some (Dir [(''Broken#1.0.0'', Dir wrongFormatPackage)]))\<rparr>"
  let ?r5 = "(''hl7.fhir.r5.core#current'',
      Dir [(''package'', Dir [(''package.json'', File ''{id: old-build}'')])])"
  let ?capsDir = "Dir [(''package'', Dir [(''package.json'', File ''{id: old-build}'')])]"
  let ?cur = "(''sushi-test#current'',
      Dir [(''package'', Dir [(''package.json'', File ''{id: old-build}'')])])"
  let ?nop = "(''sushi-test-no-package#current'', Dir noPackageFolder)"
  let ?parsed = "[(''package.json'', ''{id: old-build}'', JObj [(''id'', JStr ''old-build'')])]"
  note t = loadFromPath_case_insensitive
  have m: "cache memoWorld ''hl7.fhir.r5.core#current'' = Some oldBuild"
    by (simp add: memoWorld_def)
  have nk: "''sushi-test-caps#0.1.0'' \<notin> set objectPrototypeKeys"
    "''sushi-test#0.2.0'' \<notin> set objectPrototypeKeys"
    "''sushi-test-no-package#current'' \<notin> set objectPrototypeKeys"
    by (simp_all add: objectPrototypeKeys_def)
  have nc: "cache cachedWorld ''sushi-test-caps#0.1.0'' = None"
    "cache cachedWorld ''sushi-test#0.2.0'' = None"
    "cache cachedWorld ''sushi-test-no-package#current'' = None"
    by (simp_all add: cachedWorld_def emptyWorld_def)
  have fs: "fsAt cachedWorld ''elsewhere'' = None"
    "fsAt cachedWorld ''cache'' = Some (Dir cachedPackages)"
    by (simp_all add: cachedWorld_def emptyWorld_def)
  have names: "map (toLowerCase \<circ> fst) cachedPackages =
     [''hl7.fhir.r5.core#current'', ''sushi-test-caps#0.1.0'', ''sushi-test#current'',
      ''sushi-test-no-package#current'']"
    by (simp add: cachedPackages_def toLowerCase_def)
  have lk: "toLowerCase ''sushi-test-caps#0.1.0'' = ''sushi-test-caps#0.1.0''"
    "toLowerCase ''sushi-test#0.2.0'' = ''sushi-test#0.2.0''"
    "toLowerCase ''sushi-test-no-package#current'' = ''sushi-test-no-package#current''"
    "toLowerCase ''sushi-test-CAPS#0.1.0'' = ''sushi-test-caps#0.1.0''"
    "toLowerCase ''hl7.fhir.r5.core#current'' = ''hl7.fhir.r5.core#current''"
    "toLowerCase ''sushi-test#current'' = ''sushi-test#current''"
    by (simp_all add: toLowerCase_def)
  have split1: "cachedPackages = [?r5] @ (''sushi-test-CAPS#0.1.0'', ?capsDir) # [?cur, ?nop]"
    by (simp add: cachedPackages_def)
  have split3: "cachedPackages =
      [?r5, (''sushi-test-CAPS#0.1.0'', ?capsDir), ?cur] @
      (''sushi-test-no-package#current'', Dir noPackageFolder) # []"
    by (simp add: cachedPackages_def)
  have jp: "JSON_parse buildEnv ''{id: old-build}'' = Some (JObj [(''id'', JStr ''old-build'')])"
    by (simp add: buildEnv_def offlineEnv_def)
  have np: "map_of noPackageFolder ''package'' = None"
    by (simp add: noPackageFolder_def)
  have h1: "cache cachedWorld ''sushi-test-caps#0.1.0'' = None \<and>
      ''sushi-test-caps#0.1.0'' \<notin> set objectPrototypeKeys \<and>
      fsAt cachedWorld ''elsewhere'' = None"
    using nc nk fs by simp
  have h2: "cache cachedWorld ''sushi-test#0.2.0'' = None \<and>
      ''sushi-test#0.2.0'' \<notin> set objectPrototypeKeys \<and>
      fsAt cachedWorld ''cache'' = Some (Dir cachedPackages) \<and>
      (\<forall>e\<in>set cachedPackages. toLowerCase (fst e) \<noteq> toLowerCase ''sushi-test#0.2.0'')"
    using nc nk fs by (simp add: cachedPackages_def lk)
  have h3: "cache cachedWorld ''sushi-test-caps#0.1.0'' = None \<and>
      ''sushi-test-caps#0.1.0'' \<notin> set objectPrototypeKeys \<and>
      ''sushi-test-caps#0.1.0'' \<noteq> [] \<and>
      toLowerCase ''sushi-test-caps#0.1.0'' = ''sushi-test-caps#0.1.0'' \<and>
      fsAt cachedWorld ''cache'' =
        Some (Dir ([?r5] @ (''sushi-test-CAPS#0.1.0'', ?capsDir) # [?cur, ?nop])) \<and>
      (\<forall>e\<in>set [?r5]. toLowerCase (fst e) \<noteq> toLowerCase ''sushi-test-caps#0.1.0'') \<and>
      toLowerCase ''sushi-test-CAPS#0.1.0'' = toLowerCase ''sushi-test-caps#0.1.0''"
    using nc nk fs split1 by (simp add: lk)
  have h4: "cache cachedWorld ''sushi-test-no-package#current'' = None \<and>
      ''sushi-test-no-package#current'' \<notin> set objectPrototypeKeys \<and>
      ''sushi-test-no-package#current'' \<noteq> [] \<and>
      toLowerCase ''sushi-test-no-package#current'' = ''sushi-test-no-package#current'' \<and>
      fsAt cachedWorld ''cache'' =
        Some (Dir ([?r5, (''sushi-test-CAPS#0.1.0'', ?capsDir), ?cur] @
                   (''sushi-test-no-package#current'', Dir noPackageFolder) # [])) \<and>
      (\<forall>e\<in>set [?r5, (''sushi-test-CAPS#0.1.0'', ?capsDir), ?cur].
          toLowerCase (fst e) \<noteq> toLowerCase ''sushi-test-no-package#current'') \<and>
      toLowerCase ''sushi-test-no-package#current'' = toLowerCase ''sushi-test-no-package#current''"
    using nc nk fs split3 by (simp add: lk)
  note memo = mp[OF t[where w = memoWorld and targetPackage = "''hl7.fhir.r5.core#current''"
                        and p = oldBuild and env = buildEnv and cachePath = "''cache''",
                      THEN conjunct1] m]
  note missing = mp[OF t[where w = cachedWorld and targetPackage = "''sushi-test-caps#0.1.0''"
                           and env = buildEnv and cachePath = "''elsewhere''",
                         THEN conjunct2, THEN conjunct1] h1]
  note absent = mp[OF t[where w = cachedWorld and targetPackage = "''sushi-test#0.2.0''"
                          and env = buildEnv and cachePath = "''cache''" and es = cachedPackages,
                        THEN conjunct2, THEN conjunct2, THEN conjunct2, THEN conjunct1] h2]
  note found = mp[OF t[where w = cachedWorld and targetPackage = "''sushi-test-caps#0.1.0''"
                         and env = buildEnv and cachePath = "''cache''" and pre = "[?r5]"
                         and cachedPackage = "''sushi-test-CAPS#0.1.0''" and n = ?capsDir
                         and post = "[?cur, ?nop]" and parsed = ?parsed,
                       THEN conjunct2, THEN conjunct2, THEN conjunct2, THEN conjunct2] h3]
  note unreadable = mp[OF t[where w = cachedWorld
                         and targetPackage = "''sushi-test-no-package#current''"
                         and env = buildEnv and cachePath = "''cache''"
                         and pre = "[?r5, (''sushi-test-CAPS#0.1.0'', ?capsDir), ?cur]"
                         and cachedPackage = "''sushi-test-no-package#current''"
                         and n = "Dir noPackageFolder" and post = "[]",
                       THEN conjunct2, THEN conjunct2, THEN conjunct2, THEN conjunct2] h4]
  have h5: "cache ?fileRoot ''sushi-test#0.2.0'' = None \<and>
      ''sushi-test#0.2.0'' \<notin> set objectPrototypeKeys \<and>
      fsAt ?fileRoot ''cache'' = Some (File ''text'')"
    using nk by (simp add: emptyWorld_def)
  have lb: "toLowerCase ''Broken#1.0.0'' = ''broken#1.0.0''"
    "toLowerCase ''broken#1.0.0'' = ''broken#1.0.0''"
    by (simp_all add: toLowerCase_def)
  have h6: "cache ?broken ''broken#1.0.0'' = None \<and>
      ''broken#1.0.0'' \<notin> set objectPrototypeKeys \<and>
      ''broken#1.0.0'' \<noteq> [] \<and> toLowerCase ''broken#1.0.0'' = ''broken#1.0.0'' \<and>
      fsAt ?broken ''cache'' = Some (Dir ([] @ (''Broken#1.0.0'', Dir wrongFormatPackage) # [])) \<and>
      (\<forall>e\<in>set []. toLowerCase (fst e) \<noteq> toLowerCase ''broken#1.0.0'') \<and>
      toLowerCase ''Broken#1.0.0'' = toLowerCase ''broken#1.0.0''"
    by (simp add: emptyWorld_def objectPrototypeKeys_def lb)
  note fileRoot = mp[OF t[where w = ?fileRoot and targetPackage = "''sushi-test#0.2.0''"
                            and env = buildEnv and cachePath = "''cache''" and t = "''text''",
                          THEN conjunct2, THEN conjunct2, THEN conjunct1] h5]
  note broken = mp[OF t[where w = ?broken and targetPackage = "''broken#1.0.0''"
                          and env = buildEnv and cachePath = "''cache''" and pre = "[]"
                          and cachedPackage = "''Broken#1.0.0''" and n = "Dir wrongFormatPackage"
                          and post = "[]" and parsed = "[]" and bad = "''package.json''"
                          and b = "File ''{}''" and rest = "[]",
                        THEN conjunct2, THEN conjunct2, THEN conjunct2, THEN conjunct2] h6]
  have wp: "map_of wrongFormatPackage ''package'' = Some (Dir [(''package.json'', File ''{}'')])"
    by (simp add: wrongFormatPackage_def)
  have jn: "JSON_parse buildEnv ''{}'' = None"
    by (simp add: buildEnv_def offlineEnv_def)
  have l3: "loadFromPath buildEnv ''cache'' ''broken#1.0.0'' ?broken = (Inl SyntaxError, ?broken)"
    using broken wp jn by (simp add: endsWith_def)
  have l1: "loadFromPath buildEnv ''cache'' ''sushi-test-caps#0.1.0'' cachedWorld =
     (Inr (Some (Package capsPackage)),
      cachedWorld\<lparr>cache := (cache cachedWorld)(''sushi-test-caps#0.1.0'' \<mapsto> capsPackage)\<rparr>)"
    using found jp by (simp add: endsWith_def capsPackage_def)
  have l2: "loadFromPath buildEnv ''cache'' ''sushi-test-no-package#current'' cachedWorld =
     (Inl (SystemError ''ENOENT''), cachedWorld)"
    using unreadable np by simp
  have i1: "cachedPackages ! 1 = (''sushi-test-CAPS#0.1.0'', ?capsDir)"
    and i3: "cachedPackages ! 3 = (''sushi-test-no-package#current'', Dir noPackageFolder)"
    by (simp_all add: cachedPackages_def)
  have fr: "fsAt ?fileRoot ''cache'' = Some (File ''text'')"
    "fsAt ?broken ''cache'' = Some (Dir [(''Broken#1.0.0'', Dir wrongFormatPackage)])"
    by simp_all
  show ?thesis
    using m memo nc nk fs missing names absent lk(1) i1 jp l1 i3 np l2 fr fileRoot lb(1) wp jn l3
    by simp
qed

text \<open>The claim fails on a directory that matches and cannot be read: the cache holds a
  directory whose name is the key, without a \<^verbatim>\<open>package\<close> folder, and the result is the
  error of \<^verbatim>\<open>readdirSync\<close>, neither a package nor null.\<close>

theorem loadFromPath_claim_counterexample:
  "fsAt cachedWorld ''cache'' = Some (Dir cachedPackages) \<and>
   toLowerCase ''sushi-test-no-package#current'' = ''sushi-test-no-package#current'' \<and>
   map_of cachedPackages ''sushi-test-no-package#current'' =
     Some (Dir [(''StructureDefinition-MyPatient.json'', File ''{}'')]) \<and>
   cache cachedWorld ''sushi-test-no-package#current'' = None \<and>
   fst (loadFromPath buildEnv ''cache'' ''sushi-test-no-package#current'' cachedWorld) =
     Inl (SystemError ''ENOENT'')"
  by (simp add: loadFromPath_def PackageCache_get_def PackageCache_contains_def
        objectPrototypeKeys_def cachedWorld_def cachedPackages_def noPackageFolder_def
        emptyWorld_def listCache_def toLowerCase_def packageFiles_def)

text \<open>Two kinds of key are outside the last part of the theorem. Only the entry name is
  lowercased, so a key with a capital letter matches no entry, not even one of exactly its
  name, while the same directory is found under the lowercased key. And a key that names a
  property every object inherits is answered with that property, whatever the disk holds
  and although nothing was stored under it.\<close>

lemma loadFromPath_capital_key:
  "map_of cachedPackages ''sushi-test-CAPS#0.1.0'' =
     Some (Dir [(''package'', Dir [(''package.json'', File ''{id: old-build}'')])]) \<and>
   fst (loadFromPath buildEnv ''cache'' ''sushi-test-CAPS#0.1.0'' cachedWorld) = Inr None \<and>
   fst (loadFromPath buildEnv ''cache'' ''sushi-test-caps#0.1.0'' cachedWorld) =
     Inr (Some (Package capsPackage))"
  by (simp add: loadFromPath_def PackageCache_get_def PackageCache_contains_def
        PackageCache_put_def objectPrototypeKeys_def cachedWorld_def cachedPackages_def
        emptyWorld_def listCache_def toLowerCase_def packageFiles_def endsWith_def buildEnv_def
        offlineEnv_def capsPackage_def)

lemma loadFromPath_inherited_key:
  "cache emptyWorld ''constructor'' = None \<and> fsAt emptyWorld ''cache'' = None \<and>
   loadFromPath env ''cache'' ''constructor'' emptyWorld =
     (Inr (Some (Inherited ''constructor'')), emptyWorld) \<and>
   loadFromPath env ''cache'' ''__proto__'' emptyWorld =
     (Inr (Some (Inherited ''__proto__'')), emptyWorld)"
  by (simp add: loadFromPath_def PackageCache_get_def PackageCache_contains_def
        objectPrototypeKeys_def emptyWorld_def)

subsection \<open>lookUpLatestPatchVersion\<close>




subsection \<open>fishForFHIR\<close>

text \<open>
  C4 (as the tests have it): the lookup string is split at the first separator, so the
  requested version is everything after it and may itself hold separators. For a base
  without a separator and a version that is not empty, a definition returned for
  \<^verbatim>\<open>base|version\<close> has a version attribute equal to the requested version exactly, hence
  is never a definition without a version attribute, and is filed under the base by id, name
  or url.
\<close>

theorem fishForFHIR_version_exact:
  "(CHR ''|'' \<notin> set base \<longrightarrow> splitVersion (base @ ''|'' @ ver) = (base, Some ver)) \<and>
   (CHR ''|'' \<notin> set base \<and> ver \<noteq> [] \<and>
    fishForFHIR d (base @ ''|'' @ ver) types = Some x \<longrightarrow>
      strField ''version'' x = Some ver \<and>
      (strField ''id'' x = Some base \<or> strField ''name'' x = Some base \<or>
       strField ''url'' x = Some base))"
proof (intro conjI)
  show "CHR ''|'' \<notin> set base \<longrightarrow> splitVersion (base @ ''|'' @ ver) = (base, Some ver)"
    by (simp add: splitVersion_first)
next
  show "CHR ''|'' \<notin> set base \<and> ver \<noteq> [] \<and>
    fishForFHIR d (base @ ''|'' @ ver) types = Some x \<longrightarrow>
      strField ''version'' x = Some ver \<and>
      (strField ''id'' x = Some base \<or> strField ''name'' x = Some base \<or>
       strField ''url'' x = Some base)"
  proof
    assume a: "CHR ''|'' \<notin> set base \<and> ver \<noteq> [] \<and>
      fishForFHIR d (base @ ''|'' @ ver) types = Some x"
    then have nb: "CHR ''|'' \<notin> set base"
      and f: "fishForFHIR d (base @ ''|'' @ ver) types = Some x"
      by simp_all
    have "fishQueue [d] base (Some ver) (if types = [] then FISHING_ORDER else types) = Some x"
      using f by (simp add: fishForFHIR_def splitVersion_first[OF nb] del: fishQueue.simps)
    from fishQueue_Some[OF this]
    show "strField ''version'' x = Some ver \<and>
      (strField ''id'' x = Some base \<or> strField ''name'' x = Some base \<or>
       strField ''url'' x = Some base)"
      by (auto simp: versionOk_def)
  qed
qed

theorem fishForFHIR_version_exact_witness:
  "CHR ''|'' \<notin> set ''SimpleProfile'' \<and> ''1.0.0|a'' \<noteq> [] \<and>
   splitVersion ''SimpleProfile|1.0.0|a'' = (''SimpleProfile'', Some ''1.0.0|a'') \<and>
   fishForFHIR simpleStore ''SimpleProfile|1.0.0|a'' [] = Some simpleProfile \<and>
   strField ''version'' simpleProfile = Some ''1.0.0|a'' \<and>
   strField ''id'' simpleProfile = Some ''SimpleProfile''"
proof -
  have nb: "CHR ''|'' \<notin> set ''SimpleProfile''"
    by simp
  have f: "fishForFHIR simpleStore (''SimpleProfile'' @ ''|'' @ ''1.0.0|a'') [] = Some simpleProfile"
    by (simp add: fishForFHIR_def splitVersion_def FISHING_ORDER_def fishLocal_def hit_def
          versionOk_def simpleStore_def simpleProfile_def new_FHIRDefinitions_def classify_def
          strField_def field_def)
  have h: "CHR ''|'' \<notin> set ''SimpleProfile'' \<and> ''1.0.0|a'' \<noteq> [] \<and>
      fishForFHIR simpleStore (''SimpleProfile'' @ ''|'' @ ''1.0.0|a'') [] = Some simpleProfile"
    using nb f by simp
  note t1 = mp[OF fishForFHIR_version_exact
                 [of "''SimpleProfile''" "''1.0.0|a''", THEN conjunct1] nb]
  note t2 = mp[OF fishForFHIR_version_exact
                 [of "''SimpleProfile''" "''1.0.0|a''" simpleStore "[]" simpleProfile,
                  THEN conjunct2] h]
  have "strField ''id'' simpleProfile = Some ''SimpleProfile''"
    by (simp add: simpleProfile_def strField_def field_def)
  then show ?thesis
    using nb f t1 t2 by simp
qed

text \<open>The claim's split fails on the repository's own test (part_000, lines 386 to 392):
  the lookup \<^verbatim>\<open>SimpleProfile|1.0.0|a\<close> returns the definition whose version is
  \<^verbatim>\<open>1.0.0|a\<close>, which is not the text after the last separator, \<^verbatim>\<open>a\<close>.\<close>

theorem fishForFHIR_last_separator_counterexample:
  "fishForFHIR simpleStore ''SimpleProfile|1.0.0|a'' [] = Some simpleProfile \<and>
   strField ''version'' simpleProfile = Some ''1.0.0|a'' \<and>
   lastSeparatorVersion ''SimpleProfile|1.0.0|a'' = ''a'' \<and>
   strField ''version'' simpleProfile \<noteq> Some (lastSeparatorVersion ''SimpleProfile|1.0.0|a'')"
  by (simp add: fishForFHIR_def splitVersion_def FISHING_ORDER_def fishLocal_def hit_def
        versionOk_def simpleStore_def simpleProfile_def new_FHIRDefinitions_def classify_def
        strField_def field_def lastSeparatorVersion_def)

text \<open>
  C5: the node itself is searched first, then its children in insertion order, each child
  before any grandchild. When the node has no match and some child has one, the lookup
  returns the match of the first such child, whatever the grandchildren hold: a definition at
  depth 1 wins over a definition of the same id at depth 2, also under an earlier child.
\<close>

theorem fishForFHIR_shallower_first:
  assumes "splitVersion item = (base, version)"
    and "ts = (if types = [] then FISHING_ORDER else types)"
    and "fishLocal d base version ts = None"
    and "i < length (childFHIRDefs d)"
    and "\<forall>j<i. fishLocal (childFHIRDefs d ! j) base version ts = None"
    and "fishLocal (childFHIRDefs d ! i) base version ts = Some x"
  shows "fishForFHIR d item types = Some x"
proof -
  have "fishQueue (childFHIRDefs d @ []) base version ts = Some x"
    using fishQueue_first_match[OF assms(4,5,6)] .
  then have "fishQueue [d] base version ts = Some x"
    using assms(3) by simp
  then show ?thesis
    using assms(1,2) by (simp add: fishForFHIR_def del: fishQueue.simps)
qed

theorem fishForFHIR_shallower_first_witness:
  "splitVersion ''Condition'' = (''Condition'', None) \<and>
   fishLocal defsWithChildDefs ''Condition'' None [Resource] = None \<and>
   childFHIRDefs defsWithChildDefs = [childDefs1, childDefs2] \<and>
   fishLocal childDefs1 ''Condition'' None [Resource] = None \<and>
   childFHIRDefs childDefs1 = [childDefs3] \<and>
   fishLocal childDefs3 ''Condition'' None [Resource] = Some (condition ''4.0.3'') \<and>
   fishLocal childDefs2 ''Condition'' None [Resource] = Some (condition ''4.0.2'') \<and>
   fishForFHIR defsWithChildDefs ''Condition'' [Resource] = Some (condition ''4.0.2'')"
proof -
  note ev = splitVersion_def fishLocal_def hit_def versionOk_def defsWithChildDefs_def
    childDefs1_def childDefs2_def childDefs3_def condition_def new_FHIRDefinitions_def
    classify_def strField_def field_def
  have sv: "splitVersion ''Condition'' = (''Condition'', None)"
    by (simp add: ev)
  have ts: "[Resource] = (if [Resource] = [] then FISHING_ORDER else [Resource])"
    by simp
  have cs: "childFHIRDefs defsWithChildDefs = [childDefs1, childDefs2]"
    by (simp add: defsWithChildDefs_def new_FHIRDefinitions_def)
  have cs1: "childFHIRDefs childDefs1 = [childDefs3]"
    by (simp add: childDefs1_def new_FHIRDefinitions_def)
  have l0: "fishLocal defsWithChildDefs ''Condition'' None [Resource] = None"
    by (simp add: ev)
  have l1: "fishLocal childDefs1 ''Condition'' None [Resource] = None"
    by (simp add: ev)
  have l3: "fishLocal childDefs3 ''Condition'' None [Resource] = Some (condition ''4.0.3'')"
    by (simp add: ev)
  have l2: "fishLocal childDefs2 ''Condition'' None [Resource] = Some (condition ''4.0.2'')"
    by (simp add: ev)
  have i: "1 < length (childFHIRDefs defsWithChildDefs)"
    using cs by simp
  have before: "\<forall>j<1. fishLocal (childFHIRDefs defsWithChildDefs ! j) ''Condition'' None [Resource] = None"
    using cs l1 by simp
  have at: "fishLocal (childFHIRDefs defsWithChildDefs ! 1) ''Condition'' None [Resource] =
      Some (condition ''4.0.2'')"
    using cs l2 by simp
  note t = fishForFHIR_shallower_first[OF sv ts l0 i before at]
  show ?thesis
    using sv l0 cs l1 cs1 l3 l2 t by simp
qed

subsection \<open>mergeDependency on a cached package\<close>

text \<open>
  C1 (as the code has it): not for every version. For a package that \<^verbatim>\<open>loadFromPath\<close> finds
  under the cache path, \<^verbatim>\<open>mergeDependency\<close> issues no request and returns the store with
  that package merged into it, when the version is not \<^verbatim>\<open>latest\<close>, not a patch or minor
  wildcard, not \<^verbatim>\<open>current\<close> of an \<^verbatim>\<open>hl7.fhir.r5.\<close> package, and, for \<^verbatim>\<open>current\<close> and
  \<^verbatim>\<open>current$branch\<close>, when the build-status listing is not due for a refresh.
\<close>

theorem mergeDependency_cached_offline:
  assumes "version \<noteq> ''latest''" and "\<not> isPatchWildcard version" and "\<not> isMinorWildcard version"
    and "\<not> (startsWith ''hl7.fhir.r5.'' packageName \<and> version = ''current'')"
    and "isCurrentVersion version \<longrightarrow> \<not> fst (isCurrentPackageRefreshNeeded env w)"
    and "loadFromPath env cachePath (packageName @ ''#'' @ version) w = (Inr (Some (Package pkg)), w')"
  shows "fst (mergeDependency env packageName version FHIRDefs cachePath w) =
           Inr (merge pkg FHIRDefs) \<and>
         calls (snd (mergeDependency env packageName version FHIRDefs cachePath w)) = calls w"
proof -
  let ?key = "packageName @ CHR ''#'' # version"
  have ld: "loadFromPath env cachePath ?key w = (Inr (Some (Package pkg)), w')"
    using assms(6) by simp
  have rv: "resolveVersion env packageName version w = (Inr version, w)"
    using assms(1,2,3) by (simp add: resolveVersion_def)
  have l1: "\<And>m. loadFromPath env cachePath ?key (logMsg ''info'' m w) =
      (Inr (Some (Package pkg)), logMsg ''info'' m w')"
    using ld by (simp add: loadFromPath_logMsg)
  have df: "\<And>w3. devFallback env packageName version ?key cachePath (Some (Package pkg)) w3 =
      (Inr (version, ?key, Some (Package pkg)), w3)"
    by (simp add: devFallback_def)
  have fr: "calls w' = calls w" "lastCurrentUpdate w' = lastCurrentUpdate w" "ticks w' = ticks w"
    using loadFromPath_frame[OF ld] by simp_all
  have cu: "\<And>m1 m2. choosePackageUrl env packageName version ?key ?key cachePath (Some (Package pkg))
        (logMsg ''info'' m1 (logMsg ''info'' m2 w')) =
      (Inr None,
       if isCurrentVersion version
       then snd (isCurrentPackageRefreshNeeded env (logMsg ''info'' m1 (logMsg ''info'' m2 w')))
       else logMsg ''info'' m1 (logMsg ''info'' m2 w'))"
  proof -
    fix m1 m2
    have "fst (isCurrentPackageRefreshNeeded env (logMsg ''info'' m1 (logMsg ''info'' m2 w'))) =
        fst (isCurrentPackageRefreshNeeded env w)"
      by (rule refreshNeeded_frame) (simp_all add: logMsg_def fr)
    then show "choosePackageUrl env packageName version ?key ?key cachePath (Some (Package pkg))
        (logMsg ''info'' m1 (logMsg ''info'' m2 w')) =
      (Inr None,
       if isCurrentVersion version
       then snd (isCurrentPackageRefreshNeeded env (logMsg ''info'' m1 (logMsg ''info'' m2 w')))
       else logMsg ''info'' m1 (logMsg ''info'' m2 w'))"
      using choosePackageUrl_loaded[OF assms(4), of env _ ?key ?key cachePath pkg] assms(5)
      by simp
  qed
  have cl: "\<And>m u. calls (logMsg ''info'' m u) = calls u"
    by (simp add: logMsg_def)
  show ?thesis
    by (simp add: mergeDependency_def rv l1 df cu downloadPackage_def Let_def cl
          refreshNeeded_calls fr)
qed

theorem mergeDependency_cached_offline_witness:
  "''0.1.0'' \<noteq> ''latest'' \<and> \<not> isPatchWildcard ''0.1.0'' \<and> \<not> isMinorWildcard ''0.1.0'' \<and>
   \<not> isCurrentVersion ''0.1.0'' \<and>
   fst (loadFromPath buildEnv ''cache'' ''sushi-test-caps#0.1.0'' cachedWorld) =
     Inr (Some (Package capsPackage)) \<and>
   fst (mergeDependency buildEnv ''sushi-test-caps'' ''0.1.0'' new_FHIRDefinitions ''cache''
          cachedWorld) = Inr (merge capsPackage new_FHIRDefinitions) \<and>
   calls (snd (mergeDependency buildEnv ''sushi-test-caps'' ''0.1.0'' new_FHIRDefinitions ''cache''
          cachedWorld)) = [] \<and>
   isCurrentVersion ''current'' \<and>
   \<not> fst (isCurrentPackageRefreshNeeded buildEnv (cachedWorld\<lparr>lastCurrentUpdate := Some 0\<rparr>)) \<and>
   fst (loadFromPath buildEnv ''cache'' ''sushi-test#current''
          (cachedWorld\<lparr>lastCurrentUpdate := Some 0\<rparr>)) = Inr (Some (Package currentPackage)) \<and>
   fst (mergeDependency buildEnv ''sushi-test'' ''current'' new_FHIRDefinitions ''cache''
          (cachedWorld\<lparr>lastCurrentUpdate := Some 0\<rparr>)) =
     Inr (merge currentPackage new_FHIRDefinitions) \<and>
   calls (snd (mergeDependency buildEnv ''sushi-test'' ''current'' new_FHIRDefinitions ''cache''
          (cachedWorld\<lparr>lastCurrentUpdate := Some 0\<rparr>))) = []"
proof -
  note ev = loadFromPath_def PackageCache_get_def PackageCache_contains_def PackageCache_put_def
    objectPrototypeKeys_def cachedWorld_def cachedPackages_def emptyWorld_def listCache_def
    toLowerCase_def packageFiles_def endsWith_def buildEnv_def offlineEnv_def
  let ?refreshed = "cachedWorld\<lparr>lastCurrentUpdate := Some 0\<rparr>"
  have l1: "loadFromPath buildEnv ''cache'' (''sushi-test-caps'' @ ''#'' @ ''0.1.0'') cachedWorld =
      (Inr (Some (Package capsPackage)),
       cachedWorld\<lparr>cache := (cache cachedWorld)(''sushi-test-caps#0.1.0'' \<mapsto> capsPackage)\<rparr>)"
    by (simp add: ev capsPackage_def)
  have l2: "loadFromPath buildEnv ''cache'' (''sushi-test'' @ ''#'' @ ''current'') ?refreshed =
      (Inr (Some (Package currentPackage)),
       cachedWorld\<lparr>lastCurrentUpdate := Some 0,
                    cache := (cache cachedWorld)(''sushi-test#current'' \<mapsto> currentPackage)\<rparr>)"
    by (simp add: ev currentPackage_def)
  have v1: "''0.1.0'' \<noteq> ''latest''" "\<not> isPatchWildcard ''0.1.0''" "\<not> isMinorWildcard ''0.1.0''"
    "\<not> (startsWith ''hl7.fhir.r5.'' ''sushi-test-caps'' \<and> ''0.1.0'' = ''current'')"
    and n1: "\<not> isCurrentVersion ''0.1.0''"
    by (simp_all add: isPatchWildcard_def isMinorWildcard_def isCurrentVersion_def startsWith_def
          digits1_def isDigit_def)
  have v2: "''current'' \<noteq> ''latest''" "\<not> isPatchWildcard ''current''"
    "\<not> isMinorWildcard ''current''"
    "\<not> (startsWith ''hl7.fhir.r5.'' ''sushi-test'' \<and> ''current'' = ''current'')"
    and c2: "isCurrentVersion ''current''"
    and r2: "\<not> fst (isCurrentPackageRefreshNeeded buildEnv ?refreshed)"
    by (simp_all add: isPatchWildcard_def isMinorWildcard_def isCurrentVersion_def startsWith_def
          isCurrentPackageRefreshNeeded_def newDate_def ev)
  have i1: "isCurrentVersion ''0.1.0'' \<longrightarrow> \<not> fst (isCurrentPackageRefreshNeeded buildEnv cachedWorld)"
    using n1 by simp
  have i2: "isCurrentVersion ''current'' \<longrightarrow> \<not> fst (isCurrentPackageRefreshNeeded buildEnv ?refreshed)"
    using r2 by simp
  note t1 = mergeDependency_cached_offline[OF v1 i1 l1, of new_FHIRDefinitions]
  note t2 = mergeDependency_cached_offline[OF v2 i2 l2, of new_FHIRDefinitions]
  have e: "calls cachedWorld = []" "calls ?refreshed = []"
    by (simp_all add: cachedWorld_def emptyWorld_def)
  show ?thesis
    using v1 n1 c2 r2 l1 l2 t1 t2 e by simp
qed

text \<open>The claim fails for \<^verbatim>\<open>current\<close>: with the R5 core package in the cache the archive is
  requested all the same, and with another \<^verbatim>\<open>current\<close> package in the cache of a process
  that has not refreshed yet the listing is requested (and the call fails when that request
  does).\<close>

theorem mergeDependency_network_counterexample:
  "fst (loadFromPath buildEnv ''cache'' ''hl7.fhir.r5.core#current'' cachedWorld) =
     Inr (Some (Package oldBuild)) \<and>
   calls cachedWorld = [] \<and>
   calls (snd (mergeDependency buildEnv ''hl7.fhir.r5.core'' ''current'' new_FHIRDefinitions
                 ''cache'' cachedWorld)) = [''https://build.fhir.org/hl7.fhir.r5.core.tgz''] \<and>
   fst (loadFromPath buildEnv ''cache'' ''sushi-test#current'' cachedWorld) =
     Inr (Some (Package currentPackage)) \<and>
   fst (mergeDependency buildEnv ''sushi-test'' ''current'' new_FHIRDefinitions ''cache''
          cachedWorld) = Inl (RequestError ''Not found'') \<and>
   calls (snd (mergeDependency buildEnv ''sushi-test'' ''current'' new_FHIRDefinitions ''cache''
                 cachedWorld)) = [''https://build.fhir.org/ig/qas.json'']"
  by (simp add: mergeDependency_def resolveVersion_def isPatchWildcard_def isMinorWildcard_def
        devFallback_def choosePackageUrl_def currentPackageUrl_def isCurrentPackageRefreshNeeded_def
        markCurrentPackageRefreshed_def newDate_def isCurrentVersion_def downloadPackage_def
        doDownload_def startsWith_def Let_def logMsg_def axiosGet_def cleanCachedPackage_def
        remove_entry_def loadFromPath_def PackageCache_get_def PackageCache_contains_def
        PackageCache_put_def objectPrototypeKeys_def cachedWorld_def cachedPackages_def
        emptyWorld_def listCache_def toLowerCase_def packageFiles_def endsWith_def buildEnv_def offlineEnv_def
        oldBuild_def currentPackage_def)

subsection \<open>The memoized record\<close>

text \<open>
  C9: a memoized key is answered from the process cache whatever the disk holds. For a
  concrete version whose key is memoized, \<^verbatim>\<open>mergeDependency\<close> leaves the memoized record in
  place, and a store it returns is the argument with the memoized record merged into it.
  In particular, for \<^verbatim>\<open>current\<close> of an \<^verbatim>\<open>hl7.fhir.r5.\<close> package whose key is memoized and
  whose archive downloads and extracts, the call replaces the directory on disk with the
  downloaded one and still returns the memoized definitions.
\<close>

theorem memoized_record_survives_redownload:
  "(cache w key = Some old \<longrightarrow> loadFromPath env cachePath key w = (Inr (Some (Package old)), w)) \<and>
   (version \<noteq> ''latest'' \<and> \<not> isPatchWildcard version \<and> \<not> isMinorWildcard version \<and>
    cache w (packageName @ ''#'' @ version) = Some old \<longrightarrow>
      cache (snd (mergeDependency env packageName version FHIRDefs cachePath w))
        (packageName @ ''#'' @ version) = Some old \<and>
      (\<forall>s. fst (mergeDependency env packageName version FHIRDefs cachePath w) = Inr s \<longrightarrow>
           s = merge old FHIRDefs)) \<and>
   (startsWith ''hl7.fhir.r5.'' packageName \<and>
    cache w (packageName @ ''#current'') = Some old \<and>
    tarballAt env (''https://build.fhir.org/'' @ packageName @ ''.tgz'') =
      Response (Some (Extracts tree)) \<and>
    cleanCachedPackage tree = Inr cleaned \<and>
    listCache (fsAt w cachePath) = Inr es \<longrightarrow>
      fst (mergeDependency env packageName ''current'' FHIRDefs cachePath w) =
        Inr (merge old FHIRDefs) \<and>
      fsAt (snd (mergeDependency env packageName ''current'' FHIRDefs cachePath w)) cachePath =
        Some (Dir (remove_entry (packageName @ ''#current'') es @
                   [(packageName @ ''#current'', Dir cleaned)])) \<and>
      calls (snd (mergeDependency env packageName ''current'' FHIRDefs cachePath w)) =
        calls w @ [''https://build.fhir.org/'' @ packageName @ ''.tgz''])"
proof (intro conjI)
  show "cache w key = Some old \<longrightarrow> loadFromPath env cachePath key w = (Inr (Some (Package old)), w)"
    by (simp add: loadFromPath_memo)
next
  show "version \<noteq> ''latest'' \<and> \<not> isPatchWildcard version \<and> \<not> isMinorWildcard version \<and>
    cache w (packageName @ ''#'' @ version) = Some old \<longrightarrow>
      cache (snd (mergeDependency env packageName version FHIRDefs cachePath w))
        (packageName @ ''#'' @ version) = Some old \<and>
      (\<forall>s. fst (mergeDependency env packageName version FHIRDefs cachePath w) = Inr s \<longrightarrow>
           s = merge old FHIRDefs)"
    using mergeDependency_memoized[of version w packageName old env FHIRDefs cachePath] by blast
next
  show "startsWith ''hl7.fhir.r5.'' packageName \<and>
    cache w (packageName @ ''#current'') = Some old \<and>
    tarballAt env (''https://build.fhir.org/'' @ packageName @ ''.tgz'') =
      Response (Some (Extracts tree)) \<and>
    cleanCachedPackage tree = Inr cleaned \<and>
    listCache (fsAt w cachePath) = Inr es \<longrightarrow>
      fst (mergeDependency env packageName ''current'' FHIRDefs cachePath w) =
        Inr (merge old FHIRDefs) \<and>
      fsAt (snd (mergeDependency env packageName ''current'' FHIRDefs cachePath w)) cachePath =
        Some (Dir (remove_entry (packageName @ ''#current'') es @
                   [(packageName @ ''#current'', Dir cleaned)])) \<and>
      calls (snd (mergeDependency env packageName ''current'' FHIRDefs cachePath w)) =
        calls w @ [''https://build.fhir.org/'' @ packageName @ ''.tgz'']"
    using mergeDependency_redownload_keeps_memo
            [of packageName w old env tree cleaned cachePath es FHIRDefs]
    by blast
qed

theorem memoized_record_survives_redownload_witness:
  "cache memoWorld ''hl7.fhir.r5.core#current'' = Some oldBuild \<and>
   startsWith ''hl7.fhir.r5.'' ''hl7.fhir.r5.core'' \<and>
   tarballAt buildEnv ''https://build.fhir.org/hl7.fhir.r5.core.tgz'' =
     Response (Some (Extracts [(''package'', Dir [(''package.json'', File ''{id: new-build}'')])])) \<and>
   fsAt memoWorld ''cache'' = Some (Dir cachedPackages) \<and>
   map_of cachedPackages ''hl7.fhir.r5.core#current'' =
     Some (Dir [(''package'', Dir [(''package.json'', File ''{id: old-build}'')])]) \<and>
   loadFromPath buildEnv ''cache'' ''hl7.fhir.r5.core#current'' memoWorld =
     (Inr (Some (Package oldBuild)), memoWorld) \<and>
   fst (mergeDependency buildEnv ''hl7.fhir.r5.core'' ''current'' new_FHIRDefinitions ''cache''
          memoWorld) = Inr (merge oldBuild new_FHIRDefinitions) \<and>
   ownDefinitions (merge oldBuild new_FHIRDefinitions) =
     [Entry (JObj [(''id'', JStr ''old-build'')]) Instance] \<and>
   (case fsAt (snd (mergeDependency buildEnv ''hl7.fhir.r5.core'' ''current'' new_FHIRDefinitions
                      ''cache'' memoWorld)) ''cache'' of
      Some (Dir es) \<Rightarrow> map_of es ''hl7.fhir.r5.core#current''
    | _ \<Rightarrow> None) =
     Some (Dir [(''package'', Dir [(''package.json'', File ''{id: new-build}'')])]) \<and>
   cache (snd (mergeDependency buildEnv ''hl7.fhir.r5.core'' ''current'' new_FHIRDefinitions
                 ''cache'' memoWorld)) ''hl7.fhir.r5.core#current'' = Some oldBuild"
proof -
  let ?tree = "[(''package'', Dir [(''package.json'', File ''{id: new-build}'')])]"
  have c: "cache memoWorld ''hl7.fhir.r5.core#current'' = Some oldBuild"
    by (simp add: memoWorld_def)
  have r5: "startsWith ''hl7.fhir.r5.'' ''hl7.fhir.r5.core''"
    by (simp add: startsWith_def)
  have tb: "tarballAt buildEnv ''https://build.fhir.org/hl7.fhir.r5.core.tgz'' =
      Response (Some (Extracts ?tree))"
    by (simp add: buildEnv_def offlineEnv_def)
  have cl: "cleanCachedPackage ?tree = Inr ?tree"
    by (simp add: cleanCachedPackage_def)
  have fs: "fsAt memoWorld ''cache'' = Some (Dir cachedPackages)"
    by (simp add: memoWorld_def cachedWorld_def emptyWorld_def)
  have ls: "listCache (fsAt memoWorld ''cache'') = Inr cachedPackages"
    using fs by (simp add: listCache_def)
  have h2: "''current'' \<noteq> ''latest'' \<and> \<not> isPatchWildcard ''current'' \<and>
      \<not> isMinorWildcard ''current'' \<and>
      cache memoWorld (''hl7.fhir.r5.core'' @ ''#'' @ ''current'') = Some oldBuild"
    using c by (simp add: isPatchWildcard_def isMinorWildcard_def)
  have h3: "startsWith ''hl7.fhir.r5.'' ''hl7.fhir.r5.core'' \<and>
      cache memoWorld (''hl7.fhir.r5.core'' @ ''#current'') = Some oldBuild \<and>
      tarballAt buildEnv (''https://build.fhir.org/'' @ ''hl7.fhir.r5.core'' @ ''.tgz'') =
        Response (Some (Extracts ?tree)) \<and>
      cleanCachedPackage ?tree = Inr ?tree \<and>
      listCache (fsAt memoWorld ''cache'') = Inr cachedPackages"
    using c r5 tb cl ls by simp
  note t = memoized_record_survives_redownload
  note t1 = mp[OF t[of memoWorld "''hl7.fhir.r5.core#current''" oldBuild buildEnv "''cache''",
                    THEN conjunct1] c]
  note t2 = mp[OF t[of _ _ _ _ _ "''current''" "''hl7.fhir.r5.core''" new_FHIRDefinitions,
                    THEN conjunct2, THEN conjunct1] h2]
  note t3 = mp[OF t[of memoWorld _ oldBuild buildEnv "''cache''" _ "''hl7.fhir.r5.core''"
                      new_FHIRDefinitions ?tree ?tree cachedPackages,
                    THEN conjunct2, THEN conjunct2] h3]
  have od: "ownDefinitions (merge oldBuild new_FHIRDefinitions) =
      [Entry (JObj [(''id'', JStr ''old-build'')]) Instance]"
    by (simp add: merge_def oldBuild_def new_FHIRDefinitions_def classify_def strField_def field_def)
  have listed: "map_of cachedPackages ''hl7.fhir.r5.core#current'' =
      Some (Dir [(''package'', Dir [(''package.json'', File ''{id: old-build}'')])])"
    by (simp add: cachedPackages_def)
  show ?thesis
    using c r5 tb fs listed t1 t2 t3 od by (simp add: remove_entry_def cachedPackages_def)
qed

end
